theory Spec2Isabelle
  imports Complex_Main "HOL-Library.AList"
begin

section \<open>Python values shared by both source files\<close>

text \<open>
  Python strings are modelled as HOL strings: a list of characters, one \<open>char\<close> per code
  point (HOL's \<open>char\<close> covers the code points below 256). Exceptions are values of
  \<open>py_error\<close>; a function that can raise returns \<open>py_error + 'a\<close>.
\<close>

datatype py_error =
    IndexError
  | KeyError
  | ValueError
  | OSError
  | CalledProcessError

datatype level = DEBUG | ERROR

type_synonym log = "(level \<times> string) list"

text \<open>How a call can end: it returns, it raises, or \<open>os.abort()\<close> kills the process.\<close>

datatype 'a outcome = Returned 'a | Raised py_error | Aborted

text \<open>\<open>xs[i]\<close>: a negative index counts from the end, an index out of range raises.\<close>

definition py_getitem :: "'a list \<Rightarrow> int \<Rightarrow> py_error + 'a" where
  "py_getitem xs i =
     (if 0 \<le> i \<and> i < int (length xs) then Inr (xs ! nat i)
      else if i < 0 \<and> - int (length xs) \<le> i then Inr (xs ! nat (int (length xs) + i))
      else Inl IndexError)"

text \<open>\<open>xs[:k]\<close>: a negative bound counts from the end and is clipped at 0; slicing never raises.\<close>

definition py_slice_to :: "'a list \<Rightarrow> int \<Rightarrow> 'a list" where
  "py_slice_to xs k =
     (let n = int (length xs); j = (if k < 0 then max 0 (n + k) else min k n)
      in take (nat j) xs)"

text \<open>\<open>os.path.basename\<close> (posixpath): everything after the last slash.\<close>

definition basename :: "string \<Rightarrow> string" where
  "basename p = rev (takeWhile (\<lambda>c. c \<noteq> CHR ''/'') (rev p))"

subsection \<open>Decimal rendering and dates\<close>

definition digit_char :: "nat \<Rightarrow> char" where
  "digit_char d = ''0123456789'' ! d"

function str_nat :: "nat \<Rightarrow> string" where
  "str_nat n = (if n < 10 then [digit_char n] else str_nat (n div 10) @ [digit_char (n mod 10)])"
  by pat_completeness auto
termination
  by (relation "measure id") auto

declare str_nat.simps [simp del]

definition zfill :: "nat \<Rightarrow> string \<Rightarrow> string" where
  "zfill w s = replicate (w - length s) (CHR ''0'') @ s"

text \<open>\<open>datetime.date\<close>; \<open>date.today()\<close> is an input of the model.\<close>

record date =
  year :: nat
  month :: nat
  day :: nat

text \<open>
  \<open>strftime("%y%m%d")\<close> and \<open>strftime("%Y-%m-%d")\<close>: \<open>%y\<close>, \<open>%m\<close> and \<open>%d\<close> are
  padded to two digits, \<open>%Y\<close> is the year as the C library prints it, without padding.
\<close>

definition strftime_ymd :: "date \<Rightarrow> string" where
  "strftime_ymd d =
     zfill 2 (str_nat (year d mod 100)) @ zfill 2 (str_nat (month d)) @ zfill 2 (str_nat (day d))"

definition strftime_Y_m_d :: "date \<Rightarrow> string" where
  "strftime_Y_m_d d =
     str_nat (year d) @ ''-'' @ zfill 2 (str_nat (month d)) @ ''-''
       @ zfill 2 (str_nat (day d))"

section \<open>base_case.py: \<open>BaseCase.add_tag_to_filename\<close>\<close>

text \<open>
  The result carries the log lines written through \<open>logging\<close>. Both tests of the source
  read \<open>basename[cend]\<close>, so an index out of range raises before anything is compared.
\<close>

definition add_tag_to_filename :: "date \<Rightarrow> string \<Rightarrow> string \<Rightarrow> string outcome \<times> log" where
  "add_tag_to_filename today filename tag =
     (let basename = basename filename;
          cend = (- 10 :: int)
      in case py_getitem basename cend of
           Inl e \<Rightarrow> (Raised e, [])
         | Inr c0 \<Rightarrow>
             (let cend = (if c0 = CHR ''c'' then cend - 1 else cend)
              in case py_getitem basename cend of
                   Inl e \<Rightarrow> (Raised e, [])
                 | Inr c1 \<Rightarrow>
                     if c1 \<noteq> CHR ''.'' \<and> c1 \<noteq> CHR ''_''
                     then (Aborted,
                           [(ERROR, ''Trouble figuring out where to add tag to filename:''
                                      @ filename)])
                     else (let today_string = strftime_ymd today;
                               fname_out = py_slice_to basename cend @ ''_'' @ tag @ ''_c''
                                             @ today_string @ ''.nc''
                           in (Returned fname_out, []))))"

text \<open>
  The boundary the source computes, counted from the end of the base name: 10, or 11 when
  the character 10 from the end is \<open>c\<close>.
\<close>

definition boundary :: "string \<Rightarrow> nat" where
  "boundary b = (if b ! (length b - 10) = CHR ''c'' then 11 else 10)"

section \<open>base_case.py: datasets\<close>

text \<open>
  \<open>xarray.Dataset\<close> as far as \<open>BaseCase\<close> uses it. A variable has named dimensions, a
  shape and its values in row-major order; a value is a number or NaN (values are only
  copied and compared, never computed with). A dataset has its variables in order, the
  names that are in the coordinate role, and the global attributes \<open>attrs\<close>. The size of
  a dimension is read off the variables, as xarray does. xarray and numpy are libraries,
  not code of the repository: their operations below follow the libraries' documented
  behaviour, for numeric variables and for the calls \<open>create_1d_coord\<close> makes.
\<close>

datatype cell = Num real | NaN

datatype attr = Text string | Number real

record variable =
  dims :: "string list"
  shape :: "nat list"
  vals :: "cell list"

record dataset =
  variables :: "(string \<times> variable) list"
  coord_names :: "string set"
  attrs :: "string \<rightharpoonup> attr"

definition all_dim_sizes :: "(string \<times> variable) list \<Rightarrow> (string \<times> nat) list" where
  "all_dim_sizes vs = concat (map (\<lambda>(k, v). zip (dims v) (shape v)) vs)"

definition scalar_vars :: "(string \<times> variable) list \<Rightarrow> string list" where
  "scalar_vars vs = map fst (filter (\<lambda>(k, v). dims v = []) vs)"

text \<open>
  \<open>calculate_dimensions\<close>: the size of every dimension; a dimension named like a scalar
  variable, or used with two sizes, is a \<open>ValueError\<close>.
\<close>

definition calculate_dimensions :: "(string \<times> variable) list \<Rightarrow> py_error + (string \<rightharpoonup> nat)" where
  "calculate_dimensions vs =
     (let ds = all_dim_sizes vs
      in if (\<exists>(d, n) \<in> set ds. d \<in> set (scalar_vars vs))
            \<or> (\<exists>(d, n) \<in> set ds. \<exists>(d', m) \<in> set ds. d = d' \<and> n \<noteq> m)
         then Inl ValueError
         else Inr (map_of ds))"

definition ds_sizes :: "dataset \<Rightarrow> string \<rightharpoonup> nat" where
  "ds_sizes ds = map_of (all_dim_sizes (variables ds))"

text \<open>The two conditions of \<open>calculate_dimensions\<close>, stated over all pairs.\<close>

definition sizes_consistent :: "(string \<times> variable) list \<Rightarrow> bool" where
  "sizes_consistent vs \<longleftrightarrow>
     (\<forall>d n. (d, n) \<in> set (all_dim_sizes vs) \<longrightarrow> d \<notin> set (scalar_vars vs))
     \<and> (\<forall>d n m. (d, n) \<in> set (all_dim_sizes vs) \<longrightarrow> (d, m) \<in> set (all_dim_sizes vs) \<longrightarrow> n = m)"

text \<open>The index along a dimension: the values of the 1-d variable named like it.\<close>

definition index_of :: "(string \<times> variable) list \<Rightarrow> string \<Rightarrow> cell list option" where
  "index_of vs d =
     (case map_of vs d of
        None \<Rightarrow> None
      | Some v \<Rightarrow> if dims v = [d] then Some (vals v) else None)"

text \<open>
  What xarray keeps true of a dataset it has opened: names are unique, every variable has
  one size per dimension and as many values as its shape says, no dimension occurs twice
  in a variable, sizes agree across variables, and every variable named like a dimension
  is a coordinate.
\<close>

definition variable_ok :: "variable \<Rightarrow> bool" where
  "variable_ok v =
     (length (dims v) = length (shape v) \<and> length (vals v) = prod_list (shape v)
      \<and> distinct (dims v))"

definition dataset_ok :: "dataset \<Rightarrow> bool" where
  "dataset_ok ds =
     (distinct (map fst (variables ds))
      \<and> list_all (\<lambda>(k, v). variable_ok v) (variables ds)
      \<and> (case calculate_dimensions (variables ds) of Inl _ \<Rightarrow> False | Inr _ \<Rightarrow> True)
      \<and> coord_names ds \<subseteq> set (map fst (variables ds))
      \<and> list_all (\<lambda>(k, v). ds_sizes ds k = None \<or> k \<in> coord_names ds) (variables ds))"

text \<open>
  \<open>xr.open_dataset(filename)\<close>: the files are an input of the model, a netCDF file
  with the dataset xarray decodes from it. A path with no readable file is an
  \<open>OSError\<close>, a file no backend recognises a \<open>ValueError\<close>.
\<close>

datatype nc_file = NetCDF dataset | NotNetCDF

definition open_dataset :: "(string \<rightharpoonup> nc_file) \<Rightarrow> string \<Rightarrow> py_error + dataset" where
  "open_dataset nc_files filename =
     (case nc_files filename of
        None \<Rightarrow> Inl OSError
      | Some NotNetCDF \<Rightarrow> Inl ValueError
      | Some (NetCDF ds) \<Rightarrow> Inr ds)"

text \<open>
  \<open>ds[name]\<close>: a variable of the dataset; for a dimension that has no variable, the
  positions \<open>0 .. n-1\<close> along it; otherwise \<open>KeyError\<close>. (Dotted names that derive a
  variable from another one are not modelled.)
\<close>

definition ds_getitem :: "dataset \<Rightarrow> string \<Rightarrow> py_error + variable" where
  "ds_getitem ds name =
     (case map_of (variables ds) name of
        Some v \<Rightarrow> Inr v
      | None \<Rightarrow>
          (case ds_sizes ds name of
             Some n \<Rightarrow> Inr \<lparr>dims = [name], shape = [n],
                           vals = map (\<lambda>i. Num (of_nat i)) [0..<n]\<rparr>
           | None \<Rightarrow> Inl KeyError))"

text \<open>
  \<open>v[0, :]\<close> and \<open>v[:, 0]\<close>: two indices need two dimensions, index 0 needs a
  non-empty axis; an integer index removes its axis.
\<close>

definition index_0_all :: "variable \<Rightarrow> py_error + variable" where
  "index_0_all v =
     (if length (shape v) < 2 then Inl IndexError
      else if shape v ! 0 = 0 then Inl IndexError
      else Inr \<lparr>dims = tl (dims v), shape = tl (shape v),
                vals = take (prod_list (tl (shape v))) (vals v)\<rparr>)"

definition index_all_0 :: "variable \<Rightarrow> py_error + variable" where
  "index_all_0 v =
     (if length (shape v) < 2 then Inl IndexError
      else if shape v ! 1 = 0 then Inl IndexError
      else (let inner = prod_list (drop 2 (shape v));
                stride = (shape v ! 1) * inner
            in Inr \<lparr>dims = hd (dims v) # drop 2 (dims v),
                     shape = hd (shape v) # drop 2 (shape v),
                     vals = concat (map (\<lambda>i. take inner (drop (i * stride) (vals v)))
                                        [0..<shape v ! 0])\<rparr>))"

text \<open>\<open>np.asarray\<close>: the bare array, shape and values.\<close>

type_synonym ndarray = "nat list \<times> cell list"

definition np_asarray :: "variable \<Rightarrow> ndarray" where
  "np_asarray v = (shape v, vals v)"

text \<open>
  \<open>xr.DataArray(data, name=name, dims=dim, coords={dim: coord})\<close> with one dimension
  name: the data must be 1-d and the coordinate as long as the data.
\<close>

record dataarray =
  da_name :: string
  da_variable :: variable
  da_coords :: "(string \<times> variable) list"

definition xr_DataArray :: "ndarray \<Rightarrow> string \<Rightarrow> string \<Rightarrow> ndarray \<Rightarrow> py_error + dataarray" where
  "xr_DataArray data name dm coord =
     (if length (fst data) \<noteq> 1 then Inl ValueError
      else if fst coord \<noteq> fst data then Inl ValueError
      else Inr \<lparr>da_name = name,
                da_variable = \<lparr>dims = [dm], shape = fst data, vals = snd data\<rparr>,
                da_coords = [(dm, \<lparr>dims = [dm], shape = fst coord, vals = snd coord\<rparr>)]\<rparr>)"

text \<open>
  \<open>Dataset.assign\<close> returns a new dataset. It first aligns each new array with the
  dataset: where the dataset already has an index along the array's dimension with other
  labels, the array is re-indexed to the dataset's labels (NaN where a label is missing;
  neither index may hold a label twice then); where the dataset has the dimension without
  an index, the sizes must agree. A new array whose own name is an index of the dataset
  is not aligned: it overwrites that index. Two new arrays must agree on the labels of a
  shared dimension. Then the arrays and their coordinates replace or extend the
  variables, the sizes are checked, and the coordinates of the dataset, the coordinates
  of the new arrays and every variable named like a dimension are the coordinates of the
  result; a new array itself is a data variable unless its name is one of those.
\<close>

definition reindex :: "cell list \<Rightarrow> cell list \<Rightarrow> cell list \<Rightarrow> cell list" where
  "reindex labels data target =
     map (\<lambda>l. case map_of (zip labels data) l of Some x \<Rightarrow> x | None \<Rightarrow> NaN) target"

definition align_to_dataset :: "dataset \<Rightarrow> dataarray \<Rightarrow> py_error + dataarray" where
  "align_to_dataset ds da =
     (case da_coords da of
        [(d, c)] \<Rightarrow>
          (case index_of (variables ds) d of
             Some target \<Rightarrow>
               if target = vals c then Inr da
               else if \<not> (distinct (vals c) \<and> distinct target) then Inl ValueError
               else Inr (da\<lparr>da_variable := (da_variable da)
                               \<lparr>shape := [length target],
                                vals := reindex (vals c) (vals (da_variable da)) target\<rparr>,
                             da_coords := [(d, c\<lparr>shape := [length target], vals := target\<rparr>)]\<rparr>)
           | None \<Rightarrow>
               (case ds_sizes ds d of
                  Some m \<Rightarrow> if m = length (vals c) then Inr da else Inl ValueError
                | None \<Rightarrow> Inr da))
      | _ \<Rightarrow> Inr da)"

fun align_all :: "dataset \<Rightarrow> (string \<times> dataarray) list \<Rightarrow> py_error + (string \<times> dataarray) list" where
  "align_all ds [] = Inr []"
| "align_all ds ((k, da) # rest) =
     (case (if index_of (variables ds) k \<noteq> None then Inr da else align_to_dataset ds da) of
        Inl e \<Rightarrow> Inl e
      | Inr da' \<Rightarrow>
          (case align_all ds rest of
             Inl e \<Rightarrow> Inl e
           | Inr rest' \<Rightarrow> Inr ((k, da') # rest')))"

definition new_coords :: "(string \<times> dataarray) list \<Rightarrow> (string \<times> variable) list" where
  "new_coords items = concat (map (\<lambda>(k, da). da_coords da) items)"

definition labels_conflict :: "(string \<times> dataarray) list \<Rightarrow> bool" where
  "labels_conflict items =
     (\<exists>(d, c) \<in> set (new_coords items). \<exists>(d', c') \<in> set (new_coords items).
        d = d' \<and> vals c \<noteq> vals c')"

definition ds_assign :: "dataset \<Rightarrow> (string \<times> dataarray) list \<Rightarrow> py_error + dataset" where
  "ds_assign ds items =
     (case align_all ds items of
        Inl e \<Rightarrow> Inl e
      | Inr aligned \<Rightarrow>
          if labels_conflict aligned then Inl ValueError
          else (let vs1 = fold (\<lambda>(k, da). AList.update k (da_variable da)) aligned (variables ds);
                    vs2 = fold (\<lambda>(c, v). AList.update c v) (new_coords aligned) vs1
                in case calculate_dimensions vs2 of
                     Inl e \<Rightarrow> Inl e
                   | Inr sizes \<Rightarrow>
                       Inr (ds\<lparr>variables := vs2,
                               coord_names :=
                                 coord_names ds
                                 \<union> set (concat (map (\<lambda>(k, da). filter (\<lambda>c. c \<noteq> k)
                                                                   (map fst (da_coords da)))
                                                   aligned))
                                 \<union> set (filter (\<lambda>k. sizes k \<noteq> None) (map fst vs2))\<rparr>)))"

text \<open>
  \<open>Dataset.reset_coords(names)\<close> returns a new dataset in which the names are no longer
  coordinates; the dataset it is called on is not changed. A name that is no variable, or
  that is an index, is a \<open>ValueError\<close>.
\<close>

definition reset_coords :: "dataset \<Rightarrow> string list \<Rightarrow> py_error + dataset" where
  "reset_coords ds names =
     (if \<exists>n \<in> set names. map_of (variables ds) n = None then Inl ValueError
      else if \<exists>n \<in> set names. index_of (variables ds) n \<noteq> None then Inl ValueError
      else Inr (ds\<lparr>coord_names := coord_names ds - set names\<rparr>))"

section \<open>base_case.py: \<open>BaseCase\<close>\<close>

record BaseCase =
  create_domain :: bool
  create_surfdata :: bool
  create_landuse :: bool
  create_datm :: bool

definition BaseCase_init :: "bool \<Rightarrow> bool \<Rightarrow> bool \<Rightarrow> bool \<Rightarrow> BaseCase" where
  "BaseCase_init create_domain' create_surfdata' create_landuse' create_datm' =
     \<lparr>create_domain = create_domain', create_surfdata = create_surfdata',
      create_landuse = create_landuse', create_datm = create_datm'\<rparr>"

subsection \<open>\<open>create_1d_coord\<close>\<close>

text \<open>
  The statements of the source in order; the first one that raises ends the call. The
  dataset \<open>reset_coords\<close> returns is not bound to any name in the source, so only its
  exception, if any, is kept. \<open>f_in.close()\<close> changes nothing the model holds.
\<close>

definition create_1d_coord ::
  "(string \<rightharpoonup> nc_file) \<Rightarrow> string \<Rightarrow> string \<Rightarrow> string \<Rightarrow> string \<Rightarrow> string
     \<Rightarrow> (py_error + dataset) \<times> log" where
  "create_1d_coord nc_files filename lon_varname lat_varname x_dim y_dim =
     (let lg = [(DEBUG, ''Open file: '' @ filename)]
      in case open_dataset nc_files filename of
           Inl e \<Rightarrow> (Inl e, lg)
         | Inr f_in \<Rightarrow>
      (case ds_getitem f_in lon_varname of
           Inl e \<Rightarrow> (Inl e, lg)
         | Inr lon2d \<Rightarrow>
      (case index_0_all lon2d of
           Inl e \<Rightarrow> (Inl e, lg)
         | Inr lon_row \<Rightarrow>
      (let lon0 = np_asarray lon_row
       in case ds_getitem f_in lat_varname of
           Inl e \<Rightarrow> (Inl e, lg)
         | Inr lat2d \<Rightarrow>
      (case index_all_0 lat2d of
           Inl e \<Rightarrow> (Inl e, lg)
         | Inr lat_col \<Rightarrow>
      (let lat0 = np_asarray lat_col
       in case xr_DataArray lon0 ''lon'' x_dim lon0 of
           Inl e \<Rightarrow> (Inl e, lg)
         | Inr lon \<Rightarrow>
      (case xr_DataArray lat0 ''lat'' y_dim lat0 of
           Inl e \<Rightarrow> (Inl e, lg)
         | Inr lat \<Rightarrow>
      (case ds_assign f_in [(''lon'', lon), (''lat'', lat)] of
           Inl e \<Rightarrow> (Inl e, lg)
         | Inr f_out \<Rightarrow>
      (case reset_coords f_out [lon_varname, lat_varname] of
           Inl e \<Rightarrow> (Inl e, lg)
         | Inr _ \<Rightarrow> (Inr f_out, lg))))))))))"

text \<open>Element \<open>(i, j)\<close> of a 2-d variable.\<close>

definition cell_at :: "variable \<Rightarrow> nat \<Rightarrow> nat \<Rightarrow> cell" where
  "cell_at v i j = vals v ! (i * (shape v ! 1) + j)"

subsection \<open>\<open>update_metadata\<close>\<close>

text \<open>
  What \<open>update_metadata\<close> reads from its surroundings: the date, \<open>getpass.getuser()\<close>,
  \<open>os.path.abspath(__file__)\<close> and \<open>ctsm.git_utils.get_git_short_hash()\<close>. The last one
  is not among the sources; it is taken as a call that returns a string or raises, and so
  is \<open>getuser\<close>.
\<close>

record env =
  date_today :: date
  getuser :: "py_error + string"
  abspath_file :: string
  get_git_short_hash :: "py_error + string"

definition del_attrs :: "string list" where
  "del_attrs =
     [''source_code'',
      ''SVN_url'',
      ''hostname'',
      ''history'' @ ''History_Log'',
      ''Logname'',
      ''Host'',
      ''Version'',
      ''Compiler_Optimized'']"

text \<open>The loop over \<open>del_attrs\<close>; \<open>attr_list\<close> is the same dictionary as \<open>nc.attrs\<close>.\<close>

fun delete_attrs :: "string list \<Rightarrow> (string \<rightharpoonup> attr) \<times> log \<Rightarrow> (string \<rightharpoonup> attr) \<times> log" where
  "delete_attrs [] st = st"
| "delete_attrs (a # rest) (m, lg) =
     delete_attrs rest
       (if a \<in> dom m
        then (m(a := None), lg @ [(DEBUG, ''This attr should be deleted : '' @ a)])
        else (m, lg))"

text \<open>
  The dataset is changed in place, so the result is the exception (if any), the dataset
  as the call leaves it, and the log.
\<close>

definition update_metadata :: "BaseCase \<Rightarrow> env \<Rightarrow> dataset \<Rightarrow> py_error option \<times> dataset \<times> log" where
  "update_metadata self e nc =
     (let today_string = strftime_Y_m_d (date_today e)
      in case get_git_short_hash e of
           Inl err \<Rightarrow> (Some err, nc, [])
         | Inr sha \<Rightarrow>
             (let nc1 = nc\<lparr>attrs := (attrs nc)(''Created_on'' \<mapsto> Text today_string)\<rparr>
              in case getuser e of
                   Inl err \<Rightarrow> (Some err, nc1, [])
                 | Inr user \<Rightarrow>
                     (let nc2 = nc1\<lparr>attrs := (attrs nc1)(''Created_by'' \<mapsto> Text user)\<rparr>;
                          nc3 = nc2\<lparr>attrs := (attrs nc2)(''Created_with'' \<mapsto>
                                                   Text (abspath_file e @ '' -- '' @ sha))\<rparr>;
                          r = delete_attrs del_attrs (attrs nc3, [])
                      in (None, nc3\<lparr>attrs := fst r\<rparr>, snd r))))"

section \<open>gen_mksurfdata_jobscript_single.py\<close>

subsection \<open>\<open>int(str)\<close> and \<open>str(int)\<close>\<close>

text \<open>
  \<open>int(s)\<close> for a string, base 10: surrounding white space is stripped (tab, line
  feed, vertical tab, form feed, carriage return, space, U+0085 and U+00A0; not the
  separators U+001C to U+001F, which \<open>str.strip\<close> would strip), one sign is allowed, then
  decimal digits with single underscores between digits. CPython refuses
  more than \<open>sys.get_int_max_str_digits()\<close> digits (when that limit is not 0 and the
  number has more than 640 digits); the limit is the parameter \<open>max_str_digits\<close>.
  Every failure is a \<open>ValueError\<close>.
\<close>

definition is_space :: "char \<Rightarrow> bool" where
  "is_space c = ((of_char c :: nat) \<in> {9, 10, 11, 12, 13, 32, 133, 160})"

definition is_digit :: "char \<Rightarrow> bool" where
  "is_digit c = (48 \<le> (of_char c :: nat) \<and> (of_char c :: nat) \<le> 57)"

definition digit_val :: "char \<Rightarrow> nat" where
  "digit_val c = of_char c - 48"

definition py_strip :: "string \<Rightarrow> string" where
  "py_strip s = rev (dropWhile is_space (rev (dropWhile is_space s)))"

fun parse_digits_acc :: "nat \<Rightarrow> string \<Rightarrow> nat option" where
  "parse_digits_acc acc [] = Some acc"
| "parse_digits_acc acc [c] =
     (if is_digit c then Some (10 * acc + digit_val c) else None)"
| "parse_digits_acc acc (c # d # cs) =
     (if is_digit c then parse_digits_acc (10 * acc + digit_val c) (d # cs)
      else if c = CHR ''_'' \<and> is_digit d then parse_digits_acc (10 * acc + digit_val d) cs
      else None)"

definition parse_digits :: "string \<Rightarrow> nat option" where
  "parse_digits s =
     (case s of [] \<Rightarrow> None
      | c # cs \<Rightarrow> if is_digit c then parse_digits_acc (digit_val c) cs else None)"

definition too_many_digits :: "nat \<Rightarrow> nat \<Rightarrow> bool" where
  "too_many_digits max_str_digits ndigits =
     (640 < ndigits \<and> 0 < max_str_digits \<and> max_str_digits < ndigits)"

definition py_int :: "nat \<Rightarrow> string \<Rightarrow> py_error + int" where
  "py_int max_str_digits s =
     (let t = py_strip s;
          neg = (case t of [] \<Rightarrow> False | c # _ \<Rightarrow> c = CHR ''-'');
          body = (case t of [] \<Rightarrow> []
                  | c # cs \<Rightarrow> if c = CHR ''-'' \<or> c = CHR ''+'' then cs else t);
          ndigits = length (filter is_digit body)
      in case parse_digits body of
           None \<Rightarrow> Inl ValueError
         | Some n \<Rightarrow>
             if too_many_digits max_str_digits ndigits
             then Inl ValueError
             else Inr (if neg then - int n else int n))"

text \<open>\<open>str(i)\<close>, as the f-string prints the rank count; the same limit applies.\<close>

definition py_str_int :: "nat \<Rightarrow> int \<Rightarrow> py_error + string" where
  "py_str_int max_str_digits i =
     (let digits = str_nat (nat \<bar>i\<bar>)
      in if too_many_digits max_str_digits (length digits)
         then Inl ValueError
         else Inr ((if i < 0 then ''-'' else []) @ digits))"

subsection \<open>\<open>main\<close>\<close>

text \<open>The namespace \<open>parse_args()\<close> returns; every option value is a string.\<close>

record args =
  verbose :: bool
  account :: string
  number_of_nodes :: string
  tasks_per_node :: string
  namelist_file :: string
  jobscript_file :: string

text \<open>
  The part of the world \<open>main\<close> touches: text files by path, the paths \<open>open(path, "w")\<close>
  accepts, and the lines printed to standard output.
\<close>

record world =
  files :: "string \<rightharpoonup> string"
  writable :: "string set"
  stdout :: "string list"

text \<open>How the process ends: \<open>sys.exit(code)\<close>, or an exception nobody catches.\<close>

datatype process_end = Exit int | Uncaught py_error

text \<open>\<open>open(path, "w")\<close> creates the file or truncates it; \<open>runfile.write\<close> appends.\<close>

definition open_w :: "world \<Rightarrow> string \<Rightarrow> py_error + world" where
  "open_w w path =
     (if path \<in> writable w then Inr (w\<lparr>files := (files w)(path \<mapsto> [])\<rparr>) else Inl OSError)"

definition file_write :: "string \<Rightarrow> string \<Rightarrow> world \<Rightarrow> world" where
  "file_write path txt w =
     w\<lparr>files := (files w)(path \<mapsto> (case files w path of None \<Rightarrow> txt | Some old \<Rightarrow> old @ txt))\<rparr>"

text \<open>
  The \<open>with\<close> block closes the file on every exit, so what was written before an exception
  stays in the file. \<open>main\<close> takes the parsed arguments.
\<close>

definition main :: "nat \<Rightarrow> args \<Rightarrow> world \<Rightarrow> process_end \<times> world" where
  "main max_str_digits a w =
     (let namelist_file = namelist_file a;
          jobscript_file = jobscript_file a;
          number_of_nodes = number_of_nodes a;
          tasks_per_node = tasks_per_node a;
          account = account a
      in case open_w w jobscript_file of
           Inl e \<Rightarrow> (Uncaught e, w)
         | Inr w0 \<Rightarrow>
             (let w1 = file_write jobscript_file ''#!/bin/bash \<newline>'' w0;
                  w2 = file_write jobscript_file (''#PBS -A '' @ account @ '' \<newline>'') w1;
                  w3 = file_write jobscript_file ''#PBS -N mksurfdata \<newline>'' w2;
                  w4 = file_write jobscript_file ''#PBS -j oe \<newline>'' w3;
                  w5 = file_write jobscript_file ''#PBS -q regular \<newline>'' w4;
                  w6 = file_write jobscript_file ''#PBS -l walltime=30:00 \<newline>'' w5;
                  w7 = file_write jobscript_file
                         (''#PBS -l select='' @ number_of_nodes @ '':ncpus=36:mpiprocs=''
                            @ tasks_per_node @ '' \<newline>'') w6;
                  w8 = file_write jobscript_file ''\<newline>'' w7
              in case py_int max_str_digits tasks_per_node of
                   Inl e \<Rightarrow> (Uncaught e, w8)
                 | Inr t \<Rightarrow>
                    (case py_int max_str_digits number_of_nodes of
                       Inl e \<Rightarrow> (Uncaught e, w8)
                     | Inr n \<Rightarrow>
                        (let np = t * n
                         in case py_str_int max_str_digits np of
                              Inl e \<Rightarrow> (Uncaught e, w8)
                            | Inr np_str \<Rightarrow>
                               (let output = ''mpiexec_mpt -p \"%g:\" -np '' @ np_str
                                               @ '' ./src/mksurfdata < '' @ namelist_file;
                                    w9 = file_write jobscript_file (output @ '' \<newline>'') w8
                                in (Exit 0,
                                    w9\<lparr>stdout := stdout w9
                                          @ [''Successfully created jobscript ''
                                               @ jobscript_file]\<rparr>))))))"

text \<open>The directive header: what lines 80 to 87 of the script write.\<close>

definition header :: "args \<Rightarrow> string" where
  "header a =
     ''#!/bin/bash \<newline>''
     @ ''#PBS -A '' @ account a @ '' \<newline>''
     @ ''#PBS -N mksurfdata \<newline>''
     @ ''#PBS -j oe \<newline>''
     @ ''#PBS -q regular \<newline>''
     @ ''#PBS -l walltime=30:00 \<newline>''
     @ ''#PBS -l select='' @ number_of_nodes a @ '':ncpus=36:mpiprocs='' @ tasks_per_node a
     @ '' \<newline>''
     @ ''\<newline>''"




subsection \<open>Calls through an instance\<close>

text \<open>
  \<open>create_1d_coord\<close> and \<open>add_tag_to_filename\<close> are static methods: called on an
  instance, they do not receive it. \<open>update_metadata\<close> receives it as \<open>self\<close>.
\<close>

definition call_create_1d_coord ::
  "BaseCase \<Rightarrow> (string \<rightharpoonup> nc_file) \<Rightarrow> string \<Rightarrow> string \<Rightarrow> string \<Rightarrow> string \<Rightarrow> string
     \<Rightarrow> (py_error + dataset) \<times> log" where
  "call_create_1d_coord self = create_1d_coord"

definition call_add_tag_to_filename ::
  "BaseCase \<Rightarrow> date \<Rightarrow> string \<Rightarrow> string \<Rightarrow> string outcome \<times> log" where
  "call_add_tag_to_filename self = add_tag_to_filename"

definition call_update_metadata ::
  "BaseCase \<Rightarrow> env \<Rightarrow> dataset \<Rightarrow> py_error option \<times> dataset \<times> log" where
  "call_update_metadata self = update_metadata self"

section \<open>Example inputs\<close>

definition example_case :: BaseCase where
  "example_case = BaseCase_init True True False False"

definition example_env :: env where
  "example_env =
     \<lparr>date_today = \<lparr>year = 2026, month = 11, day = 3\<rparr>,
      getuser = Inr ''erik'',
      abspath_file = ''/ctsm/python/ctsm/site_and_regional/base_case.py'',
      get_git_short_hash = Inr ''1a2b3c4''\<rparr>"

definition example_nc :: dataset where
  "example_nc =
     \<lparr>variables = [], coord_names = {},
      attrs = [''Created_on'' \<mapsto> Text ''2001-01-01'', ''Host'' \<mapsto> Text ''cheyenne'',
               ''title'' \<mapsto> Text ''surface data'']\<rparr>"

text \<open>
  A surface dataset with 2-d \<open>LONGXY\<close> and \<open>LATIXY\<close> on a 2 by 3 grid; a domain file
  whose 2-d \<open>xc\<close> and \<open>yc\<close> are coordinates, as xarray decodes them from the
  \<open>coordinates\<close> attribute of the other variables; two surface datasets with a
  dimension of length 0, \<open>lsmlat\<close> in one and \<open>lsmlon\<close> in the other; a file whose
  dimensions are \<open>lat\<close> and \<open>lon\<close>, each with an index; and a grid file that already
  has an index along \<open>x\<close>.
\<close>

definition surfdata_file :: dataset where
  "surfdata_file = \<lparr>variables =
      [(''LONGXY'', \<lparr>dims = [''lsmlat'', ''lsmlon''], shape = [2, 3],
                     vals = [Num 10, Num 20, Num 30, Num 10, Num 20, Num 30]\<rparr>),
       (''LATIXY'', \<lparr>dims = [''lsmlat'', ''lsmlon''], shape = [2, 3],
                     vals = [Num 1, Num 1, Num 1, Num 2, Num 2, Num 2]\<rparr>),
       (''PCT_NATVEG'', \<lparr>dims = [''lsmlat'', ''lsmlon''], shape = [2, 3],
                     vals = [Num 5, Num 6, Num 7, Num 8, NaN, Num 9]\<rparr>)],
     coord_names = {}, attrs = Map.empty\<rparr>"

definition domain_file :: dataset where
  "domain_file = \<lparr>variables =
      [(''xc'', \<lparr>dims = [''nj'', ''ni''], shape = [2, 2],
                 vals = [Num 10, Num 20, Num 10, Num 20]\<rparr>),
       (''yc'', \<lparr>dims = [''nj'', ''ni''], shape = [2, 2],
                 vals = [Num 1, Num 1, Num 2, Num 2]\<rparr>),
       (''mask'', \<lparr>dims = [''nj'', ''ni''], shape = [2, 2],
                   vals = [Num 1, Num 0, Num 1, Num 1]\<rparr>)],
     coord_names = {''xc'', ''yc''}, attrs = Map.empty\<rparr>"

definition empty_grid_file :: dataset where
  "empty_grid_file = \<lparr>variables =
      [(''LONGXY'', \<lparr>dims = [''lsmlat'', ''lsmlon''], shape = [0, 2], vals = []\<rparr>),
       (''LATIXY'', \<lparr>dims = [''lsmlat'', ''lsmlon''], shape = [0, 2], vals = []\<rparr>)],
     coord_names = {}, attrs = Map.empty\<rparr>"

definition empty_columns_file :: dataset where
  "empty_columns_file = \<lparr>variables =
      [(''LONGXY'', \<lparr>dims = [''lsmlat'', ''lsmlon''], shape = [2, 0], vals = []\<rparr>),
       (''LATIXY'', \<lparr>dims = [''lsmlat'', ''lsmlon''], shape = [2, 0], vals = []\<rparr>)],
     coord_names = {}, attrs = Map.empty\<rparr>"

definition lonlat_file :: dataset where
  "lonlat_file = \<lparr>variables =
      [(''lon'', \<lparr>dims = [''lon''], shape = [2], vals = [Num 0, Num 20]\<rparr>),
       (''lat'', \<lparr>dims = [''lat''], shape = [2], vals = [Num 1, Num 2]\<rparr>),
       (''LONGXY'', \<lparr>dims = [''lat'', ''lon''], shape = [2, 2],
                     vals = [Num 10, Num 20, Num 10, Num 20]\<rparr>),
       (''LATIXY'', \<lparr>dims = [''lat'', ''lon''], shape = [2, 2],
                     vals = [Num 1, Num 1, Num 2, Num 2]\<rparr>)],
     coord_names = {''lon'', ''lat''}, attrs = Map.empty\<rparr>"

definition indexed_file :: dataset where
  "indexed_file = \<lparr>variables =
      [(''x'', \<lparr>dims = [''x''], shape = [2], vals = [Num 0, Num 20]\<rparr>),
       (''LON'', \<lparr>dims = [''y'', ''x''], shape = [2, 2],
                  vals = [Num 10, Num 20, Num 10, Num 20]\<rparr>),
       (''LAT'', \<lparr>dims = [''y'', ''x''], shape = [2, 2],
                  vals = [Num 1, Num 1, Num 2, Num 2]\<rparr>)],
     coord_names = {''x''}, attrs = Map.empty\<rparr>"

section \<open>Properties of \<open>add_tag_to_filename\<close>\<close>

lemma py_getitem_neg:
  "0 < k \<Longrightarrow> k \<le> length xs \<Longrightarrow> py_getitem xs (- int k) = Inr (xs ! (length xs - k))"
  by (simp add: py_getitem_def nat_diff_distrib' of_nat_diff)

lemma py_getitem_neg_short:
  "length xs < k \<Longrightarrow> py_getitem xs (- int k) = Inl IndexError"
  by (simp add: py_getitem_def)

lemma py_slice_to_neg:
  "0 < k \<Longrightarrow> k \<le> length xs \<Longrightarrow> py_slice_to xs (- int k) = take (length xs - k) xs"
  by (simp add: py_slice_to_def Let_def nat_diff_distrib' of_nat_diff)

text \<open>
  C1. For every file name whose base name has \<open>.\<close> or \<open>_\<close> at the computed boundary
  (10 characters from the end, one more to the left when the character there is \<open>c\<close>),
  \<open>add_tag_to_filename\<close> returns the part of the base name before the boundary, then
  \<open>_\<close>, the tag, \<open>_c\<close>, the current date as YYMMDD and \<open>.nc\<close>. In particular
  \<open>foo_bar.c210101.nc\<close> with tag \<open>hist\<close> gives \<open>foo_bar_hist_c<today>.nc\<close>, and
  \<open>foo_210101.nc\<close> with tag \<open>v2\<close> gives \<open>foo_v2_c<today>.nc\<close>.
\<close>

theorem add_tag_to_filename_tagged:
  "(10 \<le> length (basename filename) \<and> boundary (basename filename) \<le> length (basename filename)
      \<and> basename filename ! (length (basename filename) - boundary (basename filename))
            \<in> {CHR ''.'', CHR ''_''}
    \<longrightarrow> add_tag_to_filename today filename tag =
          (Returned (take (length (basename filename) - boundary (basename filename))
                       (basename filename)
                     @ ''_'' @ tag @ ''_c'' @ strftime_ymd today @ ''.nc''), []))
   \<and> add_tag_to_filename today ''foo_bar.c210101.nc'' ''hist'' =
          (Returned (''foo_bar_hist_c'' @ strftime_ymd today @ ''.nc''), [])
   \<and> add_tag_to_filename today ''foo_210101.nc'' ''v2'' =
          (Returned (''foo_v2_c'' @ strftime_ymd today @ ''.nc''), [])"
proof (intro conjI impI)
  let ?b = "basename filename"
  assume h: "10 \<le> length ?b \<and> boundary ?b \<le> length ?b
      \<and> ?b ! (length ?b - boundary ?b) \<in> {CHR ''.'', CHR ''_''}"
  have g10: "py_getitem ?b (- 10) = Inr (?b ! (length ?b - 10))"
    using h py_getitem_neg [of 10 ?b] by simp
  show "add_tag_to_filename today filename tag =
          (Returned (take (length ?b - boundary ?b) ?b
                     @ ''_'' @ tag @ ''_c'' @ strftime_ymd today @ ''.nc''), [])"
  proof (cases "?b ! (length ?b - 10) = CHR ''c''")
    case True
    then have b: "boundary ?b = 11" by (simp add: boundary_def)
    have g11: "py_getitem ?b (- 11) = Inr (?b ! (length ?b - 11))"
      using h b py_getitem_neg [of 11 ?b] by simp
    have s11: "py_slice_to ?b (- 11) = take (length ?b - 11) ?b"
      using h b py_slice_to_neg [of 11 ?b] by simp
    show ?thesis
      using h True b by (auto simp add: add_tag_to_filename_def Let_def g10 g11 s11)
  next
    case False
    then have b: "boundary ?b = 10" by (simp add: boundary_def)
    have s10: "py_slice_to ?b (- 10) = take (length ?b - 10) ?b"
      using h py_slice_to_neg [of 10 ?b] by simp
    show ?thesis
      using h False b by (auto simp add: add_tag_to_filename_def Let_def g10 s10)
  qed
next
  show "add_tag_to_filename today ''foo_bar.c210101.nc'' ''hist'' =
          (Returned (''foo_bar_hist_c'' @ strftime_ymd today @ ''.nc''), [])"
    by (simp add: add_tag_to_filename_def basename_def py_getitem_def py_slice_to_def Let_def)
next
  show "add_tag_to_filename today ''foo_210101.nc'' ''v2'' =
          (Returned (''foo_v2_c'' @ strftime_ymd today @ ''.nc''), [])"
    by (simp add: add_tag_to_filename_def basename_def py_getitem_def py_slice_to_def Let_def)
qed

theorem add_tag_to_filename_tagged_witness:
  "10 \<le> length (basename ''surf/foo_bar.c210101.nc'')
   \<and> boundary (basename ''surf/foo_bar.c210101.nc'') \<le> length (basename ''surf/foo_bar.c210101.nc'')
   \<and> basename ''surf/foo_bar.c210101.nc'' ! (length (basename ''surf/foo_bar.c210101.nc'')
         - boundary (basename ''surf/foo_bar.c210101.nc'')) \<in> {CHR ''.'', CHR ''_''}
   \<and> add_tag_to_filename \<lparr>year = 2026, month = 11, day = 3\<rparr> ''surf/foo_bar.c210101.nc'' ''hist''
        = (Returned ''foo_bar_hist_c261103.nc'', [])"
proof -
  have b: "basename ''surf/foo_bar.c210101.nc'' = ''foo_bar.c210101.nc''"
    by (simp add: basename_def)
  have bd: "boundary ''foo_bar.c210101.nc'' = 11"
    by (simp add: boundary_def)
  have d: "strftime_ymd \<lparr>year = 2026, month = 11, day = 3\<rparr> = ''261103''"
    by (simp add: strftime_ymd_def zfill_def str_nat.simps digit_char_def)
  show ?thesis
    using add_tag_to_filename_tagged
      [of "''surf/foo_bar.c210101.nc''" "\<lparr>year = 2026, month = 11, day = 3\<rparr>" "''hist''"]
    by (simp add: b bd d)
qed

text \<open>
  C6. For every file name whose base name fails the boundary check (the character 10 from
  the end, or 11 from the end when the former is \<open>c\<close>, is neither \<open>.\<close> nor \<open>_\<close>),
  \<open>add_tag_to_filename\<close> logs an error and the process is aborted: no exception is
  raised and no string is returned.
\<close>

theorem add_tag_to_filename_aborts:
  assumes "10 \<le> length (basename filename)"
    and "boundary (basename filename) \<le> length (basename filename)"
    and "basename filename ! (length (basename filename) - boundary (basename filename)) \<noteq> CHR ''.''"
    and "basename filename ! (length (basename filename) - boundary (basename filename)) \<noteq> CHR ''_''"
  shows "add_tag_to_filename today filename tag =
           (Aborted, [(ERROR, ''Trouble figuring out where to add tag to filename:'' @ filename)])
         \<and> (\<forall>s. fst (add_tag_to_filename today filename tag) \<noteq> Returned s)
         \<and> (\<forall>e. fst (add_tag_to_filename today filename tag) \<noteq> Raised e)"
proof -
  let ?b = "basename filename"
  have g10: "py_getitem ?b (- 10) = Inr (?b ! (length ?b - 10))"
    using assms(1) py_getitem_neg [of 10 ?b] by simp
  have "add_tag_to_filename today filename tag =
           (Aborted, [(ERROR, ''Trouble figuring out where to add tag to filename:'' @ filename)])"
  proof (cases "?b ! (length ?b - 10) = CHR ''c''")
    case True
    then have b: "boundary ?b = 11" by (simp add: boundary_def)
    have g11: "py_getitem ?b (- 11) = Inr (?b ! (length ?b - 11))"
      using assms(2) b py_getitem_neg [of 11 ?b] by simp
    show ?thesis
      using assms(3,4) True b by (simp add: add_tag_to_filename_def Let_def g10 g11)
  next
    case False
    then have b: "boundary ?b = 10" by (simp add: boundary_def)
    show ?thesis
      using assms(3,4) False b by (simp add: add_tag_to_filename_def Let_def g10)
  qed
  then show ?thesis by simp
qed

theorem add_tag_to_filename_aborts_witness:
  "10 \<le> length (basename ''fooX210101.nc'')
   \<and> boundary (basename ''fooX210101.nc'') \<le> length (basename ''fooX210101.nc'')
   \<and> basename ''fooX210101.nc'' ! (length (basename ''fooX210101.nc'')
         - boundary (basename ''fooX210101.nc'')) \<noteq> CHR ''.''
   \<and> basename ''fooX210101.nc'' ! (length (basename ''fooX210101.nc'')
         - boundary (basename ''fooX210101.nc'')) \<noteq> CHR ''_''
   \<and> add_tag_to_filename \<lparr>year = 2026, month = 11, day = 3\<rparr> ''fooX210101.nc'' ''v2'' =
        (Aborted, [(ERROR, ''Trouble figuring out where to add tag to filename:fooX210101.nc'')])"
proof -
  have b: "basename ''fooX210101.nc'' = ''fooX210101.nc''"
    by (simp add: basename_def)
  have bd: "boundary ''fooX210101.nc'' = 10"
    by (simp add: boundary_def)
  show ?thesis
    using add_tag_to_filename_aborts
      [of "''fooX210101.nc''" "\<lparr>year = 2026, month = 11, day = 3\<rparr>" "''v2''"]
    by (simp add: b bd)
qed

text \<open>
  C7. For every file name whose base name is shorter than 10 characters, or has exactly
  10 characters and starts with \<open>c\<close>, \<open>add_tag_to_filename\<close> raises an index error at
  the unguarded read at offset -10 or -11: nothing is logged, the process is not aborted
  and no name is returned.
\<close>

theorem add_tag_to_filename_short:
  assumes "length (basename filename) < 10
           \<or> (length (basename filename) = 10 \<and> hd (basename filename) = CHR ''c'')"
  shows "add_tag_to_filename today filename tag = (Raised IndexError, [])"
proof -
  let ?b = "basename filename"
  from assms show ?thesis
  proof
    assume "length ?b < 10"
    then have "py_getitem ?b (- 10) = Inl IndexError"
      using py_getitem_neg_short [of ?b 10] by simp
    then show ?thesis by (simp add: add_tag_to_filename_def Let_def)
  next
    assume h: "length ?b = 10 \<and> hd ?b = CHR ''c''"
    then have g10: "py_getitem ?b (- 10) = Inr (?b ! 0)"
      using py_getitem_neg [of 10 ?b] by simp
    have "?b \<noteq> []" using h by auto
    then have c: "?b ! 0 = CHR ''c''" using h by (simp add: hd_conv_nth)
    have g11: "py_getitem ?b (- 11) = Inl IndexError"
      using h py_getitem_neg_short [of ?b 11] by simp
    show ?thesis by (simp add: add_tag_to_filename_def Let_def g10 c g11)
  qed
qed

theorem add_tag_to_filename_short_witness:
  "(length (basename ''data/c210101.nc'') < 10
      \<or> (length (basename ''data/c210101.nc'') = 10 \<and> hd (basename ''data/c210101.nc'') = CHR ''c''))
   \<and> add_tag_to_filename \<lparr>year = 2026, month = 11, day = 3\<rparr> ''data/c210101.nc'' ''v2''
        = (Raised IndexError, [])"
proof -
  have b: "basename ''data/c210101.nc'' = ''c210101.nc''"
    by (simp add: basename_def)
  show ?thesis
    using add_tag_to_filename_short
      [of "''data/c210101.nc''" "\<lparr>year = 2026, month = 11, day = 3\<rparr>" "''v2''"]
    by (simp add: b)
qed

section \<open>Properties of the job script emitter\<close>





text \<open>
  A separator character after the digits is not white space for \<open>int\<close>: the argument
  \<open>4\<close> followed by U+001F is not numeric, and \<open>main\<close> leaves the header only.
\<close>

lemma py_int_separator: "py_int mx [CHR ''4'', CHR 0x1F] = Inl ValueError"
  by (simp add: py_int_def py_strip_def is_space_def parse_digits_def is_digit_def digit_val_def)

lemma main_separator_argument:
  "main mx \<lparr>verbose = False, account = ''P1'', number_of_nodes = ''2'',
         tasks_per_node = [CHR ''4'', CHR 0x1F], namelist_file = ''nl.txt'',
         jobscript_file = ''out.sh''\<rparr>
       \<lparr>files = Map.empty, writable = {''out.sh''}, stdout = []\<rparr>
     = (Uncaught ValueError,
        \<lparr>files = [''out.sh'' \<mapsto>
           header \<lparr>verbose = False, account = ''P1'', number_of_nodes = ''2'',
                    tasks_per_node = [CHR ''4'', CHR 0x1F], namelist_file = ''nl.txt'',
                    jobscript_file = ''out.sh''\<rparr>],
          writable = {''out.sh''}, stdout = []\<rparr>)"
  by (simp add: main_def Let_def open_w_def file_write_def py_int_separator header_def)







section \<open>Decimal strings of natural numbers\<close>

text \<open>
  \<open>int\<close> reads back what \<open>str\<close> prints: for node counts and task counts given in plain
  decimal the conversions of \<open>main\<close> succeed (within the digit limit) and the launch line
  carries the decimal product.
\<close>

lemma digit_char_cases:
  assumes "d < 10"
  shows "is_digit (digit_char d) \<and> digit_val (digit_char d) = d \<and> \<not> is_space (digit_char d)
         \<and> digit_char d \<noteq> CHR ''-'' \<and> digit_char d \<noteq> CHR ''+''"
proof -
  from assms have "d = 0 \<or> d = 1 \<or> d = 2 \<or> d = 3 \<or> d = 4 \<or> d = 5 \<or> d = 6 \<or> d = 7 \<or> d = 8 \<or> d = 9"
    by arith
  then show ?thesis
    by (elim disjE) (simp_all add: digit_char_def is_digit_def digit_val_def is_space_def)
qed

lemma str_nat_digits: "\<forall>c \<in> set (str_nat n). is_digit c \<and> \<not> is_space c"
proof (induction n rule: str_nat.induct)
  case (1 n)
  show ?case
  proof (cases "n < 10")
    case True
    then show ?thesis by (simp add: str_nat.simps [of n] digit_char_cases)
  next
    case False
    then have "n mod 10 < 10" by simp
    with False 1 show ?thesis by (simp add: str_nat.simps [of n] digit_char_cases)
  qed
qed

lemma str_nat_nonempty: "str_nat n \<noteq> []"
  by (subst str_nat.simps) simp

lemma str_nat_hd: "hd (str_nat n) \<noteq> CHR ''-'' \<and> hd (str_nat n) \<noteq> CHR ''+''"
proof (induction n rule: str_nat.induct)
  case (1 n)
  show ?case
  proof (cases "n < 10")
    case True
    then show ?thesis by (simp add: str_nat.simps [of n] digit_char_cases)
  next
    case False
    with 1 show ?thesis by (simp add: str_nat.simps [of n] str_nat_nonempty)
  qed
qed

lemma parse_digits_acc_foldl:
  "\<forall>c \<in> set ds. is_digit c \<Longrightarrow>
     parse_digits_acc acc ds = Some (foldl (\<lambda>a c. 10 * a + digit_val c) acc ds)"
  by (induction acc ds rule: parse_digits_acc.induct) simp_all

lemma parse_digits_foldl:
  assumes "ds \<noteq> []" and "\<forall>c \<in> set ds. is_digit c"
  shows "parse_digits ds = Some (foldl (\<lambda>a c. 10 * a + digit_val c) 0 ds)"
  using assms by (cases ds) (simp_all add: parse_digits_def parse_digits_acc_foldl)

lemma foldl_str_nat: "foldl (\<lambda>a c. 10 * a + digit_val c) 0 (str_nat n) = n"
proof (induction n rule: str_nat.induct)
  case (1 n)
  show ?case
  proof (cases "n < 10")
    case True
    then show ?thesis by (simp add: str_nat.simps [of n] digit_char_cases)
  next
    case False
    then have "n mod 10 < 10" by simp
    with False 1 show ?thesis by (simp add: str_nat.simps [of n] digit_char_cases)
  qed
qed

lemma py_strip_id:
  assumes "\<forall>c \<in> set s. \<not> is_space c"
  shows "py_strip s = s"
proof -
  have "dropWhile is_space s = s" using assms by (cases s) simp_all
  moreover have "dropWhile is_space (rev s) = rev s" using assms by (cases "rev s") (simp, fastforce)
  ultimately show ?thesis by (simp add: py_strip_def)
qed

lemma py_int_str_nat:
  assumes "\<not> too_many_digits mx (length (str_nat n))"
  shows "py_int mx (str_nat n) = Inr (int n)"
proof -
  have s: "py_strip (str_nat n) = str_nat n" by (rule py_strip_id) (simp add: str_nat_digits)
  obtain c cs where cc: "str_nat n = c # cs" using str_nat_nonempty [of n] by (cases "str_nat n") auto
  with str_nat_hd [of n] have c: "c \<noteq> CHR ''-''" "c \<noteq> CHR ''+''" by simp_all
  have f: "filter is_digit (str_nat n) = str_nat n" by (simp add: str_nat_digits)
  have p: "parse_digits (str_nat n) = Some n"
    using parse_digits_foldl [OF str_nat_nonempty [of n]] by (simp add: str_nat_digits foldl_str_nat)
  have b: "(case str_nat n of [] \<Rightarrow> []
             | c # cs \<Rightarrow> if c = CHR ''-'' \<or> c = CHR ''+'' then cs else str_nat n) = str_nat n"
    using cc c by simp
  have ng: "(case str_nat n of [] \<Rightarrow> False | c # _ \<Rightarrow> c = CHR ''-'') = False"
    using cc c by simp
  show ?thesis
    unfolding py_int_def s Let_def b ng f p using assms by simp
qed

lemma py_str_int_nat:
  assumes "\<not> too_many_digits mx (length (str_nat n))"
  shows "py_str_int mx (int n) = Inr (str_nat n)"
  using assms by (simp add: py_str_int_def Let_def)

text \<open>The date tag of \<open>add_tag_to_filename\<close> is six decimal digits.\<close>

lemma zfill_2_str_nat:
  assumes "k < 100"
  shows "length (zfill 2 (str_nat k)) = 2 \<and> (\<forall>c \<in> set (zfill 2 (str_nat k)). is_digit c)"
proof -
  have z: "is_digit (CHR ''0'')" by (simp add: is_digit_def)
  have d: "\<forall>c \<in> set (str_nat k). is_digit c" by (simp add: str_nat_digits)
  have l: "length (str_nat k) = (if k < 10 then 1 else 2)"
  proof (cases "k < 10")
    case True
    then show ?thesis by (simp add: str_nat.simps [of k])
  next
    case False
    with assms have "k div 10 < 10" by simp
    then have "length (str_nat (k div 10)) = 1" by (simp add: str_nat.simps [of "k div 10"])
    with False show ?thesis by (simp add: str_nat.simps [of k])
  qed
  show ?thesis using z d l by (auto simp add: zfill_def)
qed

lemma strftime_ymd_digits:
  assumes "month d < 100" and "day d < 100"
  shows "length (strftime_ymd d) = 6 \<and> (\<forall>c \<in> set (strftime_ymd d). is_digit c)"
proof -
  have "year d mod 100 < 100" by simp
  then show ?thesis
    using zfill_2_str_nat [of "year d mod 100"] zfill_2_str_nat [OF assms(1)]
      zfill_2_str_nat [OF assms(2)]
    by (auto simp add: strftime_ymd_def)
qed

lemma main_on_numbers:
  assumes "jobscript_file a \<in> writable w"
    and "number_of_nodes a = str_nat n" and "tasks_per_node a = str_nat t"
    and "\<not> too_many_digits mx (length (str_nat n))"
    and "\<not> too_many_digits mx (length (str_nat t))"
    and "\<not> too_many_digits mx (length (str_nat (t * n)))"
  shows "fst (main mx a w) = Exit 0
         \<and> files (snd (main mx a w)) (jobscript_file a)
             = Some (header a @ ''mpiexec_mpt -p \"%g:\" -np '' @ str_nat (t * n)
                       @ '' ./src/mksurfdata < '' @ namelist_file a @ '' \<newline>'')"
proof -
  have o: "open_w w (jobscript_file a) = Inr (w\<lparr>files := (files w)(jobscript_file a \<mapsto> [])\<rparr>)"
    using assms(1) by (simp add: open_w_def)
  have pn: "py_int mx (number_of_nodes a) = Inr (int n)"
    using assms(2,4) by (simp add: py_int_str_nat)
  have pt: "py_int mx (tasks_per_node a) = Inr (int t)"
    using assms(3,5) by (simp add: py_int_str_nat)
  have "py_str_int mx (int (t * n)) = Inr (str_nat (t * n))"
    using assms(6) by (rule py_str_int_nat)
  then have ps: "py_str_int mx (int t * int n) = Inr (str_nat (t * n))" by simp
  show ?thesis
    unfolding main_def Let_def
    by (simp add: o pn pt ps file_write_def header_def)
qed

section \<open>Properties of \<open>update_metadata\<close>\<close>

lemma delete_attrs_fst:
  "fst (delete_attrs ks (m, lg)) = m |` (- set ks)"
proof (induction ks arbitrary: m lg)
  case Nil
  show ?case by simp
next
  case (Cons a ks)
  show ?case
    by (auto simp add: Cons.IH fun_eq_iff domIff restrict_map_def)
qed

lemma update_metadata_attrs:
  assumes "get_git_short_hash e = Inr sha" and "getuser e = Inr user"
  shows "update_metadata self e nc =
           (None,
            nc\<lparr>attrs := ((attrs nc)(''Created_on'' \<mapsto> Text (strftime_Y_m_d (date_today e)),
                                    ''Created_by'' \<mapsto> Text user,
                                    ''Created_with'' \<mapsto> Text (abspath_file e @ '' -- '' @ sha)))
                           |` (- set del_attrs)\<rparr>,
            snd (delete_attrs del_attrs
                   ((attrs nc)(''Created_on'' \<mapsto> Text (strftime_Y_m_d (date_today e)),
                               ''Created_by'' \<mapsto> Text user,
                               ''Created_with'' \<mapsto> Text (abspath_file e @ '' -- '' @ sha)), [])))"
  using assms by (simp add: update_metadata_def Let_def delete_attrs_fst)

lemma strftime_Y_m_d_example:
  "strftime_Y_m_d \<lparr>year = 2026, month = 11, day = 3\<rparr> = ''2026-11-03''"
  by (simp add: strftime_Y_m_d_def zfill_def str_nat.simps digit_char_def)

text \<open>
  C5. For every dataset, after \<open>update_metadata\<close> (with the user and the revision hash
  obtained) the attributes \<open>Created_on\<close> (the current date as YYYY-MM-DD),
  \<open>Created_by\<close> (the current user) and \<open>Created_with\<close> (the tool's path, \<open> -- \<close>, the
  short revision hash) hold the fresh values whatever was there before; the eight legacy
  names \<open>source_code\<close>, \<open>SVN_url\<close>, \<open>hostname\<close>, \<open>historyHistory_Log\<close> (the merged
  key), \<open>Logname\<close>, \<open>Host\<close>, \<open>Version\<close> and \<open>Compiler_Optimized\<close> are absent; and
  no exception is raised, whether or not any of the eight was present.
\<close>

theorem update_metadata_sets_and_removes:
  assumes "get_git_short_hash e = Inr sha" and "getuser e = Inr user"
  shows "fst (update_metadata self e nc) = None
    \<and> attrs (fst (snd (update_metadata self e nc))) ''Created_on''
         = Some (Text (strftime_Y_m_d (date_today e)))
    \<and> attrs (fst (snd (update_metadata self e nc))) ''Created_by'' = Some (Text user)
    \<and> attrs (fst (snd (update_metadata self e nc))) ''Created_with''
         = Some (Text (abspath_file e @ '' -- '' @ sha))
    \<and> (\<forall>k \<in> {''source_code'', ''SVN_url'', ''hostname'', ''historyHistory_Log'', ''Logname'',
              ''Host'', ''Version'', ''Compiler_Optimized''}.
          attrs (fst (snd (update_metadata self e nc))) k = None)"
  by (simp add: update_metadata_attrs [OF assms] del_attrs_def restrict_map_def)

theorem update_metadata_sets_and_removes_witness:
  "get_git_short_hash example_env = Inr ''1a2b3c4''
   \<and> getuser example_env = Inr ''erik''
   \<and> attrs example_nc ''Created_on'' = Some (Text ''2001-01-01'')
   \<and> attrs example_nc ''Host'' = Some (Text ''cheyenne'')
   \<and> attrs example_nc ''Version'' = None
   \<and> fst (update_metadata example_case example_env example_nc) = None
   \<and> attrs (fst (snd (update_metadata example_case example_env example_nc))) ''Created_on''
        = Some (Text ''2026-11-03'')
   \<and> attrs (fst (snd (update_metadata example_case example_env example_nc))) ''Created_by''
        = Some (Text ''erik'')
   \<and> attrs (fst (snd (update_metadata example_case example_env example_nc))) ''Created_with''
        = Some (Text ''/ctsm/python/ctsm/site_and_regional/base_case.py -- 1a2b3c4'')
   \<and> attrs (fst (snd (update_metadata example_case example_env example_nc))) ''Host'' = None
   \<and> attrs (fst (snd (update_metadata example_case example_env example_nc))) ''Version'' = None
   \<and> attrs (fst (snd (update_metadata example_case example_env example_nc)))
        ''historyHistory_Log'' = None"
proof -
  have g: "get_git_short_hash example_env = Inr ''1a2b3c4''"
    by (simp add: example_env_def)
  have u: "getuser example_env = Inr ''erik''"
    by (simp add: example_env_def)
  have d: "strftime_Y_m_d (date_today example_env) = ''2026-11-03''"
    by (simp add: example_env_def strftime_Y_m_d_example)
  have p: "abspath_file example_env = ''/ctsm/python/ctsm/site_and_regional/base_case.py''"
    by (simp add: example_env_def)
  show ?thesis
    using update_metadata_sets_and_removes [OF g u, of example_case example_nc]
    by (simp add: g u d p example_nc_def)
qed

text \<open>
  C8. Running \<open>update_metadata\<close> twice in a row on the same dataset, with the date, the
  user and the revision hash unchanged between the runs, leaves the dataset as one run
  leaves it.
\<close>

theorem update_metadata_idempotent:
  "fst (snd (update_metadata self e (fst (snd (update_metadata self e nc)))))
     = fst (snd (update_metadata self e nc))"
proof (cases "get_git_short_hash e")
  case (Inl err)
  then show ?thesis by (simp add: update_metadata_def Let_def)
next
  case sha: (Inr sha)
  show ?thesis
  proof (cases "getuser e")
    case (Inl err)
    with sha show ?thesis by (simp add: update_metadata_def Let_def)
  next
    case (Inr user)
    show ?thesis
      by (simp add: update_metadata_attrs [OF sha Inr] del_attrs_def fun_eq_iff restrict_map_def)
  qed
qed

section \<open>The configuration flags\<close>

text \<open>
  C9. For any two assignments of the four flags recorded at construction
  (\<open>create_domain\<close>, \<open>create_surfdata\<close>, \<open>create_landuse\<close>, \<open>create_datm\<close>), each of
  \<open>create_1d_coord\<close>, \<open>add_tag_to_filename\<close> and \<open>update_metadata\<close> gives the same
  result, the same dataset and the same log on the same inputs.
\<close>

theorem flags_have_no_effect:
  "call_create_1d_coord (BaseCase_init d1 s1 l1 a1) nc_files filename lon_varname lat_varname
       x_dim y_dim
     = call_create_1d_coord (BaseCase_init d2 s2 l2 a2) nc_files filename lon_varname lat_varname
         x_dim y_dim
   \<and> call_add_tag_to_filename (BaseCase_init d1 s1 l1 a1) today filename' tag
     = call_add_tag_to_filename (BaseCase_init d2 s2 l2 a2) today filename' tag
   \<and> call_update_metadata (BaseCase_init d1 s1 l1 a1) e nc
     = call_update_metadata (BaseCase_init d2 s2 l2 a2) e nc"
  by (simp add: call_create_1d_coord_def call_add_tag_to_filename_def call_update_metadata_def
        update_metadata_def)

section \<open>Properties of \<open>create_1d_coord\<close>\<close>

subsection \<open>Dimension sizes under update\<close>

lemma set_update_subset: "set (AList.update k v al) \<subseteq> insert (k, v) (set al)"
  by (induction al) auto

lemma all_dim_sizes_mem:
  "p \<in> set (all_dim_sizes vs) \<longleftrightarrow> (\<exists>k v. (k, v) \<in> set vs \<and> p \<in> set (zip (dims v) (shape v)))"
  by (force simp add: all_dim_sizes_def)

lemma all_dim_sizes_update:
  assumes "set (zip (dims v) (shape v)) \<subseteq> S" and "set (all_dim_sizes al) \<subseteq> S"
  shows "set (all_dim_sizes (AList.update k v al)) \<subseteq> S"
proof
  fix p assume "p \<in> set (all_dim_sizes (AList.update k v al))"
  then obtain k' v' where m: "(k', v') \<in> set (AList.update k v al)"
    and p: "p \<in> set (zip (dims v') (shape v'))"
    by (auto simp add: all_dim_sizes_mem)
  from m set_update_subset [of k v al] have "(k', v') = (k, v) \<or> (k', v') \<in> set al" by auto
  then show "p \<in> S"
  proof
    assume "(k', v') = (k, v)"
    with p assms show ?thesis by auto
  next
    assume "(k', v') \<in> set al"
    with p have "p \<in> set (all_dim_sizes al)" by (auto simp add: all_dim_sizes_mem)
    with assms(2) show ?thesis by auto
  qed
qed

lemma scalar_vars_update:
  assumes "dims v \<noteq> []" and "set (scalar_vars al) \<subseteq> S"
  shows "set (scalar_vars (AList.update k v al)) \<subseteq> S"
proof
  fix x assume "x \<in> set (scalar_vars (AList.update k v al))"
  then obtain v' where m: "(x, v') \<in> set (AList.update k v al)" and d: "dims v' = []"
    by (auto simp add: scalar_vars_def)
  from m set_update_subset [of k v al] have "(x, v') = (k, v) \<or> (x, v') \<in> set al" by auto
  with d assms have "(x, v') \<in> set al" by auto
  with d have "x \<in> set (scalar_vars al)" by (force simp add: scalar_vars_def)
  with assms(2) show "x \<in> S" by auto
qed

lemma calculate_dimensions_consistent:
  "calculate_dimensions vs = (if sizes_consistent vs then Inr (map_of (all_dim_sizes vs)) else Inl ValueError)"
  unfolding calculate_dimensions_def Let_def sizes_consistent_def
  by (auto split: prod.splits)

lemma sizes_consistent_mono:
  assumes ok: "sizes_consistent vs"
    and sub: "set (all_dim_sizes vs') \<subseteq> set (all_dim_sizes vs)"
    and sc: "set (scalar_vars vs') \<subseteq> set (scalar_vars vs)"
  shows "sizes_consistent vs'"
  using assms unfolding sizes_consistent_def by blast

lemma sizes_unique:
  assumes ok: "sizes_consistent vs"
    and "(d, n) \<in> set (all_dim_sizes vs)"
  shows "map_of (all_dim_sizes vs) d = Some n"
proof -
  from assms(2) obtain m where m: "map_of (all_dim_sizes vs) d = Some m"
    by (metis weak_map_of_SomeI)
  then have "(d, m) \<in> set (all_dim_sizes vs)" by (rule map_of_SomeD)
  with ok assms(2) have "n = m" unfolding sizes_consistent_def by blast
  with m show ?thesis by simp
qed

lemma var_dim_sizes:
  assumes "map_of vs k = Some v" and "(d, n) \<in> set (zip (dims v) (shape v))"
  shows "(d, n) \<in> set (all_dim_sizes vs)"
  using assms by (auto simp add: all_dim_sizes_mem dest: map_of_SomeD)

subsection \<open>First row and first column\<close>

lemma take_as_map_nth: "n \<le> length xs \<Longrightarrow> take n xs = map ((!) xs) [0..<n]"
  by (rule nth_equalityI) auto

lemma concat_singletons: "concat (map (\<lambda>i. [f i]) xs) = map f xs"
  by (induction xs) auto

lemma take1_drop: "k < length xs \<Longrightarrow> take 1 (drop k xs) = [xs ! k]"
  by (simp add: Cons_nth_drop_Suc [symmetric])

lemma dataset_ok_variable:
  assumes "dataset_ok ds" and "map_of (variables ds) k = Some v"
  shows "variable_ok v"
proof -
  from assms(2) have "(k, v) \<in> set (variables ds)" by (rule map_of_SomeD)
  with assms(1) show ?thesis by (auto simp add: dataset_ok_def list_all_iff)
qed

lemma dataset_ok_consistent:
  assumes "dataset_ok ds"
  shows "sizes_consistent (variables ds)"
  using assms by (simp add: dataset_ok_def calculate_dimensions_consistent split: if_splits)

lemma first_row:
  assumes "variable_ok v" and "dims v = [yd, xd]" and "shape v = [ny, nx]" and "0 < ny"
  shows "index_0_all v = Inr \<lparr>dims = [xd], shape = [nx], vals = map (cell_at v 0) [0..<nx]\<rparr>"
proof -
  from assms have len: "length (vals v) = ny * nx" by (simp add: variable_ok_def)
  with assms(4) have "nx \<le> length (vals v)" by simp
  then have "take nx (vals v) = map ((!) (vals v)) [0..<nx]" by (rule take_as_map_nth)
  also have "\<dots> = map (cell_at v 0) [0..<nx]" by (simp add: cell_at_def)
  finally show ?thesis using assms by (simp add: index_0_all_def)
qed

lemma first_col:
  assumes "variable_ok v" and "dims v = [yd, xd]" and "shape v = [ny, nx]" and "0 < nx"
  shows "index_all_0 v = Inr \<lparr>dims = [yd], shape = [ny], vals = map (\<lambda>i. cell_at v i 0) [0..<ny]\<rparr>"
proof -
  from assms have len: "length (vals v) = ny * nx" by (simp add: variable_ok_def)
  have eq: "map (\<lambda>i. take 1 (drop (i * nx) (vals v))) [0..<ny] = map (\<lambda>i. [vals v ! (i * nx)]) [0..<ny]"
  proof (rule map_cong [OF refl])
    fix i assume "i \<in> set [0..<ny]"
    then have "i < ny" by simp
    then have "Suc i * nx \<le> ny * nx"
      by (intro mult_le_mono1) simp
    then have "i * nx + nx \<le> ny * nx" by simp
    with assms(4) have "i * nx < ny * nx" by linarith
    with len have "i * nx < length (vals v)" by simp
    then show "take 1 (drop (i * nx) (vals v)) = [vals v ! (i * nx)]" by (rule take1_drop)
  qed
  have "concat (map (\<lambda>i. take 1 (drop (i * nx) (vals v))) [0..<ny])
               = map (\<lambda>i. vals v ! (i * nx)) [0..<ny]"
    unfolding eq by (rule concat_singletons)
  then show ?thesis using assms by (simp add: index_all_0_def Let_def cell_at_def)
qed

lemma lat_shape:
  assumes ok: "dataset_ok ds"
    and lon: "map_of (variables ds) kx = Some a" and "dims a = [yd, xd]" and "shape a = [ny, nx]"
    and lat: "map_of (variables ds) ky = Some b" and "dims b = [yd, xd]"
  shows "shape b = [ny, nx]"
proof -
  have c: "sizes_consistent (variables ds)" using ok by (rule dataset_ok_consistent)
  have "variable_ok b" using ok lat by (rule dataset_ok_variable)
  with assms(6) have "length (shape b) = 2" by (simp add: variable_ok_def)
  then obtain s0 s1 where sb: "shape b = [s0, s1]"
    by (metis (no_types, opaque_lifting) length_0_conv length_Suc_conv numeral_2_eq_2)
  have "(yd, ny) \<in> set (all_dim_sizes (variables ds))" "(xd, nx) \<in> set (all_dim_sizes (variables ds))"
    using var_dim_sizes [OF lon] assms(3,4) by auto
  moreover have "(yd, s0) \<in> set (all_dim_sizes (variables ds))" "(xd, s1) \<in> set (all_dim_sizes (variables ds))"
    using var_dim_sizes [OF lat] assms(6) sb by auto
  ultimately have "ny = s0" "nx = s1" using c unfolding sizes_consistent_def by blast+
  with sb show ?thesis by simp
qed

lemma align_unindexed:
  assumes c: "sizes_consistent (variables ds)"
    and m: "(d, n) \<in> set (all_dim_sizes (variables ds))"
    and ix: "index_of (variables ds) d = None \<or> index_of (variables ds) d = Some labels"
    and n: "length labels = n"
  shows "align_to_dataset ds
           \<lparr>da_name = nm, da_variable = \<lparr>dims = [d], shape = [n], vals = labels\<rparr>,
            da_coords = [(d, \<lparr>dims = [d], shape = [n], vals = labels\<rparr>)]\<rparr>
         = Inr \<lparr>da_name = nm, da_variable = \<lparr>dims = [d], shape = [n], vals = labels\<rparr>,
                da_coords = [(d, \<lparr>dims = [d], shape = [n], vals = labels\<rparr>)]\<rparr>"
proof -
  have "ds_sizes ds d = Some n" using sizes_unique [OF c m] by (simp add: ds_sizes_def)
  with ix n show ?thesis by (auto simp add: align_to_dataset_def)
qed

subsection \<open>The coordinate role of the 2-d fields\<close>

lemma ds_assign_keeps_coords:
  assumes "ds_assign ds items = Inr ds'" and "v \<in> coord_names ds" and "v \<notin> set (map fst items)"
  shows "v \<in> coord_names ds'"
  using assms
  by (auto simp add: ds_assign_def Let_def split: sum.splits if_splits)

lemma reset_coords_names:
  assumes "reset_coords ds names = Inr ds'" and "n \<in> set names"
  shows "map_of (variables ds) n \<noteq> None"
  using assms by (auto simp add: reset_coords_def split: if_splits)

lemma create_1d_coord_Inr:
  assumes "create_1d_coord nc_files filename lon_varname lat_varname x_dim y_dim = (Inr f_out, lg)"
  shows "\<exists>f_in lon lat r.
           nc_files filename = Some (NetCDF f_in)
           \<and> ds_assign f_in [(''lon'', lon), (''lat'', lat)] = Inr f_out
           \<and> reset_coords f_out [lon_varname, lat_varname] = Inr r"
  using assms
  by (auto simp add: create_1d_coord_def Let_def open_dataset_def
        split: sum.splits option.splits nc_file.splits)

text \<open>
  C3 says that in the dataset \<open>create_1d_coord\<close> returns the original 2-d longitude and
  latitude fields are demoted from the coordinate role to ordinary data variables, and
  are not deleted. The code calls \<open>reset_coords\<close> on \<open>f_out\<close> and drops the dataset
  that call returns, so the demotion never reaches the result: whenever the call returns
  a dataset, every coordinate of the opened file (not named \<open>lon\<close> or \<open>lat\<close>) is
  still a coordinate of it, the two 2-d fields among them. They are indeed not deleted.
\<close>

theorem create_1d_coord_keeps_coordinate_role:
  assumes "nc_files filename = Some (NetCDF f_in)"
    and "create_1d_coord nc_files filename lon_varname lat_varname x_dim y_dim = (Inr f_out, lg)"
    and "v \<in> coord_names f_in" and "v \<noteq> ''lon''" and "v \<noteq> ''lat''"
  shows "v \<in> coord_names f_out
         \<and> map_of (variables f_out) lon_varname \<noteq> None
         \<and> map_of (variables f_out) lat_varname \<noteq> None"
proof -
  from create_1d_coord_Inr [OF assms(2)] obtain f_in' lon lat r
    where o: "nc_files filename = Some (NetCDF f_in')"
      and a: "ds_assign f_in' [(''lon'', lon), (''lat'', lat)] = Inr f_out"
      and r: "reset_coords f_out [lon_varname, lat_varname] = Inr r"
    by blast
  from o assms(1) have "f_in' = f_in" by simp
  with a have a': "ds_assign f_in [(''lon'', lon), (''lat'', lat)] = Inr f_out" by simp
  have "v \<in> coord_names f_out"
    using a' assms(3) by (rule ds_assign_keeps_coords) (use assms(4,5) in simp)
  moreover have "map_of (variables f_out) lon_varname \<noteq> None"
    using r by (rule reset_coords_names) simp
  moreover have "map_of (variables f_out) lat_varname \<noteq> None"
    using r by (rule reset_coords_names) simp
  ultimately show ?thesis by simp
qed

theorem create_1d_coord_keeps_coordinate_role_witness:
  "[''domain.nc'' \<mapsto> NetCDF domain_file] ''domain.nc'' = Some (NetCDF domain_file)
   \<and> \<not> isl (fst (create_1d_coord [''domain.nc'' \<mapsto> NetCDF domain_file] ''domain.nc''
                    ''xc'' ''yc'' ''ni'' ''nj''))
   \<and> ''xc'' \<in> coord_names domain_file
   \<and> ''xc'' \<in> coord_names (projr (fst (create_1d_coord [''domain.nc'' \<mapsto> NetCDF domain_file]
                                          ''domain.nc'' ''xc'' ''yc'' ''ni'' ''nj'')))
   \<and> map_of (variables (projr (fst (create_1d_coord [''domain.nc'' \<mapsto> NetCDF domain_file]
                                        ''domain.nc'' ''xc'' ''yc'' ''ni'' ''nj'')))) ''xc''
        \<noteq> None
   \<and> map_of (variables (projr (fst (create_1d_coord [''domain.nc'' \<mapsto> NetCDF domain_file]
                                        ''domain.nc'' ''xc'' ''yc'' ''ni'' ''nj'')))) ''yc''
        \<noteq> None
   \<and> ''xc'' \<notin> coord_names (projr (reset_coords
          (projr (fst (create_1d_coord [''domain.nc'' \<mapsto> NetCDF domain_file]
                         ''domain.nc'' ''xc'' ''yc'' ''ni'' ''nj''))) [''xc'', ''yc'']))"
proof -
  let ?X = "create_1d_coord [''domain.nc'' \<mapsto> NetCDF domain_file] ''domain.nc'' ''xc'' ''yc'' ''ni'' ''nj''"
  have o: "[''domain.nc'' \<mapsto> NetCDF domain_file] ''domain.nc'' = Some (NetCDF domain_file)" by simp
  have n: "\<not> isl (fst ?X)" by code_simp
  then have e: "?X = (Inr (projr (fst ?X)), snd ?X)" by (simp add: prod_eq_iff)
  have c: "''xc'' \<in> coord_names domain_file" by (simp add: domain_file_def)
  have d: "''xc'' \<notin> coord_names (projr (reset_coords (projr (fst ?X)) [''xc'', ''yc'']))"
    by code_simp
  from create_1d_coord_keeps_coordinate_role [OF o e c]
  have "''xc'' \<in> coord_names (projr (fst ?X))
        \<and> map_of (variables (projr (fst ?X))) ''xc'' \<noteq> None
        \<and> map_of (variables (projr (fst ?X))) ''yc'' \<noteq> None"
    by simp
  with o n c d show ?thesis by simp
qed

subsection \<open>The 1-d axes\<close>

lemma empty_grid_file_ok: "dataset_ok empty_grid_file"
  by code_simp

lemma empty_columns_file_ok: "dataset_ok empty_columns_file"
  by code_simp

lemma surfdata_file_ok: "dataset_ok surfdata_file"
  by code_simp

lemma indexed_file_ok: "dataset_ok indexed_file"
  by code_simp

text \<open>
  C4, as stated, fails in two ways. At a file that opens and holds 2-d \<open>LONGXY\<close> and
  \<open>LATIXY\<close> of shape \<open>[lsmlat, lsmlon]\<close> with \<open>lsmlat\<close> of length 0,
  \<open>f_in[lon_varname][0, :]\<close> raises \<open>IndexError\<close> and no dataset is returned; with
  \<open>lsmlon\<close> of length 0, \<open>f_in[lat_varname][:, 0]\<close> does. And at a surface dataset
  with a 2 by 3 grid, a dataset is returned, but \<open>lon\<close> and \<open>lat\<close> are not in the
  coordinate role in it: \<open>assign\<close> adds them as data variables, and the coordinates it
  adds are the ones named \<open>lsmlon\<close> and \<open>lsmlat\<close>.
\<close>

theorem create_1d_coord_not_as_claimed:
  "dataset_ok empty_grid_file
   \<and> map_of (variables empty_grid_file) ''LONGXY''
        = Some \<lparr>dims = [''lsmlat'', ''lsmlon''], shape = [0, 2], vals = []\<rparr>
   \<and> map_of (variables empty_grid_file) ''LATIXY''
        = Some \<lparr>dims = [''lsmlat'', ''lsmlon''], shape = [0, 2], vals = []\<rparr>
   \<and> create_1d_coord [''surfdata.nc'' \<mapsto> NetCDF empty_grid_file] ''surfdata.nc''
          ''LONGXY'' ''LATIXY'' ''lsmlon'' ''lsmlat''
        = (Inl IndexError, [(DEBUG, ''Open file: surfdata.nc'')])
   \<and> dataset_ok empty_columns_file
   \<and> create_1d_coord [''surfdata.nc'' \<mapsto> NetCDF empty_columns_file] ''surfdata.nc''
          ''LONGXY'' ''LATIXY'' ''lsmlon'' ''lsmlat''
        = (Inl IndexError, [(DEBUG, ''Open file: surfdata.nc'')])
   \<and> dataset_ok surfdata_file
   \<and> \<not> isl (fst (create_1d_coord [''surfdata.nc'' \<mapsto> NetCDF surfdata_file] ''surfdata.nc''
                    ''LONGXY'' ''LATIXY'' ''lsmlon'' ''lsmlat''))
   \<and> ''lon'' \<notin> coord_names (projr (fst (create_1d_coord
          [''surfdata.nc'' \<mapsto> NetCDF surfdata_file] ''surfdata.nc''
          ''LONGXY'' ''LATIXY'' ''lsmlon'' ''lsmlat'')))
   \<and> ''lat'' \<notin> coord_names (projr (fst (create_1d_coord
          [''surfdata.nc'' \<mapsto> NetCDF surfdata_file] ''surfdata.nc''
          ''LONGXY'' ''LATIXY'' ''lsmlon'' ''lsmlat'')))
   \<and> ''lsmlon'' \<in> coord_names (projr (fst (create_1d_coord
          [''surfdata.nc'' \<mapsto> NetCDF surfdata_file] ''surfdata.nc''
          ''LONGXY'' ''LATIXY'' ''lsmlon'' ''lsmlat'')))
   \<and> ''lsmlat'' \<in> coord_names (projr (fst (create_1d_coord
          [''surfdata.nc'' \<mapsto> NetCDF surfdata_file] ''surfdata.nc''
          ''LONGXY'' ''LATIXY'' ''lsmlon'' ''lsmlat'')))"
proof -
  have v: "map_of (variables empty_grid_file) ''LONGXY''
             = Some \<lparr>dims = [''lsmlat'', ''lsmlon''], shape = [0, 2], vals = []\<rparr>"
    "map_of (variables empty_grid_file) ''LATIXY''
             = Some \<lparr>dims = [''lsmlat'', ''lsmlon''], shape = [0, 2], vals = []\<rparr>"
    by (simp_all add: empty_grid_file_def)
  have r: "create_1d_coord [''surfdata.nc'' \<mapsto> NetCDF empty_grid_file] ''surfdata.nc''
             ''LONGXY'' ''LATIXY'' ''lsmlon'' ''lsmlat''
           = (Inl IndexError, [(DEBUG, ''Open file: surfdata.nc'')])"
    by (simp add: empty_grid_file_def create_1d_coord_def open_dataset_def ds_getitem_def
          index_0_all_def Let_def)
  have c: "create_1d_coord [''surfdata.nc'' \<mapsto> NetCDF empty_columns_file] ''surfdata.nc''
             ''LONGXY'' ''LATIXY'' ''lsmlon'' ''lsmlat''
           = (Inl IndexError, [(DEBUG, ''Open file: surfdata.nc'')])"
    by (simp add: empty_columns_file_def create_1d_coord_def open_dataset_def ds_getitem_def
          index_0_all_def index_all_0_def Let_def)
  let ?X = "create_1d_coord [''surfdata.nc'' \<mapsto> NetCDF surfdata_file] ''surfdata.nc''
              ''LONGXY'' ''LATIXY'' ''lsmlon'' ''lsmlat''"
  have n: "\<not> isl (fst ?X)" by code_simp
  have l1: "''lon'' \<notin> coord_names (projr (fst ?X))" by code_simp
  have l2: "''lat'' \<notin> coord_names (projr (fst ?X))" by code_simp
  have l3: "''lsmlon'' \<in> coord_names (projr (fst ?X))" by code_simp
  have l4: "''lsmlat'' \<in> coord_names (projr (fst ?X))" by code_simp
  show ?thesis
    using empty_grid_file_ok empty_columns_file_ok surfdata_file_ok v r c n l1 l2 l3 l4
    by (intro conjI)
qed

text \<open>
  A file that already has an index along \<open>x\<close> with labels other than the first row of
  the longitude field: \<open>assign\<close> re-indexes the new array to the labels of the file, and
  \<open>lon\<close> is not the first row \<open>[10, 20]\<close>.
\<close>

lemma create_1d_coord_reindexed:
  "\<not> isl (fst (create_1d_coord [''grid.nc'' \<mapsto> NetCDF indexed_file] ''grid.nc''
                 ''LON'' ''LAT'' ''x'' ''y''))
   \<and> map_of (variables (projr (fst (create_1d_coord [''grid.nc'' \<mapsto> NetCDF indexed_file]
                                        ''grid.nc'' ''LON'' ''LAT'' ''x'' ''y''))))
        ''lon'' = Some \<lparr>dims = [''x''], shape = [2], vals = [NaN, Num 20]\<rparr>"
  by code_simp

text \<open>
  A file whose dimensions are named \<open>lon\<close> and \<open>lat\<close> and have an index already:
  the new arrays are named like those indexes, so they are not aligned and overwrite
  them; \<open>lon\<close> is the first row \<open>[10, 20]\<close>, not the old labels \<open>[0, 20]\<close>, and
  stays a coordinate.
\<close>

lemma create_1d_coord_overwrites_index:
  "\<not> isl (fst (create_1d_coord [''grid.nc'' \<mapsto> NetCDF lonlat_file] ''grid.nc''
                 ''LONGXY'' ''LATIXY'' ''lon'' ''lat''))
   \<and> map_of (variables (projr (fst (create_1d_coord [''grid.nc'' \<mapsto> NetCDF lonlat_file]
                                        ''grid.nc'' ''LONGXY'' ''LATIXY'' ''lon'' ''lat''))))
        ''lon'' = Some \<lparr>dims = [''lon''], shape = [2], vals = [Num 10, Num 20]\<rparr>
   \<and> ''lon'' \<in> coord_names (projr (fst (create_1d_coord [''grid.nc'' \<mapsto> NetCDF lonlat_file]
                                        ''grid.nc'' ''LONGXY'' ''LATIXY'' ''lon'' ''lat'')))"
  by code_simp

text \<open>
  C4, amended. For every file that opens as a well-formed dataset with 2-d fields of
  dimensions \<open>[y_dim, x_dim]\<close> under the two names, with at least one row and one
  column, where the two names are not themselves \<open>x_dim\<close> or \<open>y_dim\<close>, \<open>x_dim\<close> is not
  \<open>lat\<close> and \<open>y_dim\<close> is not \<open>lon\<close>, and an index the file already has along
  \<open>x_dim\<close> carries the first row of the longitude field unless \<open>x_dim\<close> is \<open>lon\<close>
  (then the new array overwrites it), and likewise along \<open>y_dim\<close> with the first
  column of the latitude field and \<open>lat\<close>: \<open>create_1d_coord\<close> returns a dataset whose
  new 1-d variable \<open>lon\<close> (along \<open>x_dim\<close>) is the first row of the 2-d longitude field
  and whose new 1-d variable \<open>lat\<close> (along \<open>y_dim\<close>) is the first column of the 2-d
  latitude field. The coordinates the call adds are the index coordinates named
  \<open>x_dim\<close> and \<open>y_dim\<close>, with the same values. \<open>lon\<close> and \<open>lat\<close> themselves are
  in the coordinate role of the result exactly when the name is a dimension of the
  result (as when \<open>x_dim\<close> is \<open>lon\<close>) or was a coordinate of the file already;
  otherwise they are data variables.
\<close>

theorem create_1d_coord_axes:
  assumes f: "nc_files filename = Some (NetCDF f_in)"
    and ok: "dataset_ok f_in"
    and lon: "map_of (variables f_in) lon_varname = Some lon2d"
    and lond: "dims lon2d = [y_dim, x_dim]"
    and lat: "map_of (variables f_in) lat_varname = Some lat2d"
    and latd: "dims lat2d = [y_dim, x_dim]"
    and shp: "shape lon2d = [ny, nx]"
    and ny: "0 < ny" and nx: "0 < nx"
    and ix: "index_of (variables f_in) x_dim = None
             \<or> index_of (variables f_in) x_dim = Some (map (cell_at lon2d 0) [0..<nx])
             \<or> x_dim = ''lon''"
    and iy: "index_of (variables f_in) y_dim = None
             \<or> index_of (variables f_in) y_dim = Some (map (\<lambda>i. cell_at lat2d i 0) [0..<ny])
             \<or> y_dim = ''lat''"
    and xl: "x_dim \<noteq> ''lat''" and yl: "y_dim \<noteq> ''lon''"
    and lonn: "lon_varname \<noteq> x_dim" "lon_varname \<noteq> y_dim"
    and latn: "lat_varname \<noteq> x_dim" "lat_varname \<noteq> y_dim"
  shows "\<exists>f_out.
           create_1d_coord nc_files filename lon_varname lat_varname x_dim y_dim
             = (Inr f_out, [(DEBUG, ''Open file: '' @ filename)])
           \<and> map_of (variables f_out) ''lon''
               = Some \<lparr>dims = [x_dim], shape = [nx], vals = map (cell_at lon2d 0) [0..<nx]\<rparr>
           \<and> map_of (variables f_out) ''lat''
               = Some \<lparr>dims = [y_dim], shape = [ny], vals = map (\<lambda>i. cell_at lat2d i 0) [0..<ny]\<rparr>
           \<and> index_of (variables f_out) x_dim = Some (map (cell_at lon2d 0) [0..<nx])
           \<and> index_of (variables f_out) y_dim = Some (map (\<lambda>i. cell_at lat2d i 0) [0..<ny])
           \<and> x_dim \<in> coord_names f_out \<and> y_dim \<in> coord_names f_out
           \<and> (''lon'' \<in> coord_names f_out \<longleftrightarrow>
                 ''lon'' \<in> coord_names f_in \<or> ds_sizes f_out ''lon'' \<noteq> None)
           \<and> (''lat'' \<in> coord_names f_out \<longleftrightarrow>
                 ''lat'' \<in> coord_names f_in \<or> ds_sizes f_out ''lat'' \<noteq> None)"
proof -
  define row where "row = map (cell_at lon2d 0) [0..<nx]"
  define col where "col = map (\<lambda>i. cell_at lat2d i 0) [0..<ny]"
  define vlon where "vlon = \<lparr>dims = [x_dim], shape = [nx], vals = row\<rparr>"
  define vlat where "vlat = \<lparr>dims = [y_dim], shape = [ny], vals = col\<rparr>"
  define lonDA where "lonDA = \<lparr>da_name = ''lon'', da_variable = vlon, da_coords = [(x_dim, vlon)]\<rparr>"
  define latDA where "latDA = \<lparr>da_name = ''lat'', da_variable = vlat, da_coords = [(y_dim, vlat)]\<rparr>"
  define vs where "vs = variables f_in"
  define vs2 where "vs2 = AList.update y_dim vlat (AList.update x_dim vlon
                            (AList.update ''lat'' vlat (AList.update ''lon'' vlon vs)))"
  have cons: "sizes_consistent vs" using ok unfolding vs_def by (rule dataset_ok_consistent)
  have vlon_ok: "variable_ok lon2d" using ok lon by (rule dataset_ok_variable)
  have vlat_ok: "variable_ok lat2d" using ok lat by (rule dataset_ok_variable)
  have shp': "shape lat2d = [ny, nx]" using ok lon lond shp lat latd by (rule lat_shape)
  have xy: "x_dim \<noteq> y_dim" using vlon_ok lond by (auto simp add: variable_ok_def)
  have mx: "(x_dim, nx) \<in> set (all_dim_sizes vs)" and my: "(y_dim, ny) \<in> set (all_dim_sizes vs)"
    using var_dim_sizes [OF lon] lond shp by (auto simp add: vs_def)
  \<comment> \<open>lines 118 to 121\<close>
  have g1: "ds_getitem f_in lon_varname = Inr lon2d" using lon by (simp add: ds_getitem_def)
  have g2: "ds_getitem f_in lat_varname = Inr lat2d" using lat by (simp add: ds_getitem_def)
  have r: "index_0_all lon2d = Inr vlon"
    unfolding vlon_def row_def using vlon_ok lond shp ny by (rule first_row)
  have c: "index_all_0 lat2d = Inr vlat"
    unfolding vlat_def col_def using vlat_ok latd shp' nx by (rule first_col)
  have d1: "xr_DataArray (np_asarray vlon) ''lon'' x_dim (np_asarray vlon) = Inr lonDA"
    by (simp add: xr_DataArray_def np_asarray_def lonDA_def vlon_def)
  have d2: "xr_DataArray (np_asarray vlat) ''lat'' y_dim (np_asarray vlat) = Inr latDA"
    by (simp add: xr_DataArray_def np_asarray_def latDA_def vlat_def)
  \<comment> \<open>line 123\<close>
  have a1: "(if index_of (variables f_in) ''lon'' \<noteq> None then Inr lonDA
             else align_to_dataset f_in lonDA) = Inr lonDA"
  proof (cases "index_of (variables f_in) ''lon'' = None")
    case True
    with ix have ix': "index_of (variables f_in) x_dim = None
                       \<or> index_of (variables f_in) x_dim = Some row"
      by (auto simp add: row_def)
    have "align_to_dataset f_in lonDA = Inr lonDA"
      unfolding lonDA_def vlon_def
      by (rule align_unindexed) (use cons mx ix' in \<open>simp_all add: vs_def row_def\<close>)
    with True show ?thesis by simp
  next
    case False
    then show ?thesis by simp
  qed
  have a2: "(if index_of (variables f_in) ''lat'' \<noteq> None then Inr latDA
             else align_to_dataset f_in latDA) = Inr latDA"
  proof (cases "index_of (variables f_in) ''lat'' = None")
    case True
    with iy have iy': "index_of (variables f_in) y_dim = None
                       \<or> index_of (variables f_in) y_dim = Some col"
      by (auto simp add: col_def)
    have "align_to_dataset f_in latDA = Inr latDA"
      unfolding latDA_def vlat_def
      by (rule align_unindexed) (use cons my iy' in \<open>simp_all add: vs_def col_def\<close>)
    with True show ?thesis by simp
  next
    case False
    then show ?thesis by simp
  qed
  have al: "align_all f_in [(''lon'', lonDA), (''lat'', latDA)] = Inr [(''lon'', lonDA), (''lat'', latDA)]"
    unfolding align_all.simps a1 a2 by simp
  have nc: "new_coords [(''lon'', lonDA), (''lat'', latDA)] = [(x_dim, vlon), (y_dim, vlat)]"
    by (simp add: new_coords_def lonDA_def latDA_def)
  have nolc: "\<not> labels_conflict [(''lon'', lonDA), (''lat'', latDA)]"
    using xy by (simp add: labels_conflict_def nc)
  have zl: "set (zip (dims vlon) (shape vlon)) \<subseteq> set (all_dim_sizes vs)"
    and zt: "set (zip (dims vlat) (shape vlat)) \<subseteq> set (all_dim_sizes vs)"
    using mx my by (simp_all add: vlon_def vlat_def)
  have sub: "set (all_dim_sizes vs2) \<subseteq> set (all_dim_sizes vs)"
    unfolding vs2_def by (intro all_dim_sizes_update zl zt subset_refl)
  have sc: "set (scalar_vars vs2) \<subseteq> set (scalar_vars vs)"
    unfolding vs2_def by (intro scalar_vars_update subset_refl) (simp_all add: vlon_def vlat_def)
  have cd: "calculate_dimensions vs2 = Inr (map_of (all_dim_sizes vs2))"
    using sizes_consistent_mono [OF cons sub sc] by (simp add: calculate_dimensions_consistent)
  define f_out where "f_out = f_in\<lparr>variables := vs2,
      coord_names := coord_names f_in
                     \<union> set (concat (map (\<lambda>(k, da). filter (\<lambda>c. c \<noteq> k) (map fst (da_coords da)))
                                       [(''lon'', lonDA), (''lat'', latDA)]))
                     \<union> set (filter (\<lambda>k. map_of (all_dim_sizes vs2) k \<noteq> None) (map fst vs2))\<rparr>"
  have dv: "da_variable lonDA = vlon" "da_variable latDA = vlat"
    "da_coords lonDA = [(x_dim, vlon)]" "da_coords latDA = [(y_dim, vlat)]"
    by (simp_all add: lonDA_def latDA_def)
  have asg: "ds_assign f_in [(''lon'', lonDA), (''lat'', latDA)] = Inr f_out"
    unfolding ds_assign_def al
    by (simp add: nolc nc Let_def dv cd [unfolded vs2_def vs_def] f_out_def vs2_def vs_def)
  have m2: "map_of vs2 = (map_of vs)(''lon'' \<mapsto> vlon, ''lat'' \<mapsto> vlat, x_dim \<mapsto> vlon, y_dim \<mapsto> vlat)"
    by (simp add: vs2_def update_conv')
  \<comment> \<open>line 125\<close>
  have v1: "map_of vs2 lon_varname \<noteq> None" and v2: "map_of vs2 lat_varname \<noteq> None"
    using lon lat by (auto simp add: m2 vs_def)
  have i1: "index_of vs2 lon_varname = None"
    using lon lond lonn by (auto simp add: index_of_def m2 vs_def vlon_def vlat_def)
  have i2: "index_of vs2 lat_varname = None"
    using lat latd latn by (auto simp add: index_of_def m2 vs_def vlon_def vlat_def)
  have rc: "reset_coords f_out [lon_varname, lat_varname]
              = Inr (f_out\<lparr>coord_names := coord_names f_out - set [lon_varname, lat_varname]\<rparr>)"
    using v1 v2 i1 i2 by (simp add: reset_coords_def f_out_def)
  have res: "create_1d_coord nc_files filename lon_varname lat_varname x_dim y_dim
               = (Inr f_out, [(DEBUG, ''Open file: '' @ filename)])"
    by (simp add: create_1d_coord_def Let_def open_dataset_def f g1 g2 r c d1 d2 asg rc)
  have vlonv: "map_of (variables f_out) ''lon'' = Some vlon"
    using yl by (auto simp add: f_out_def m2)
  have vlatv: "map_of (variables f_out) ''lat'' = Some vlat"
    using xl by (auto simp add: f_out_def m2)
  have ixo: "index_of (variables f_out) x_dim = Some row"
    using xy by (simp add: f_out_def index_of_def m2 vlon_def)
  have iyo: "index_of (variables f_out) y_dim = Some col"
    by (simp add: f_out_def index_of_def m2 vlat_def)
  have kx: "x_dim \<in> set (map fst vs2)" and ky: "y_dim \<in> set (map fst vs2)"
    using xy by (simp_all add: vs2_def update_keys)
  have sx: "map_of (all_dim_sizes vs2) x_dim \<noteq> None"
  proof -
    have "(x_dim, vlon) \<in> set vs2" using xy by (intro map_of_SomeD) (simp add: m2)
    then have "(x_dim, nx) \<in> set (all_dim_sizes vs2)"
      by (auto simp add: all_dim_sizes_mem vlon_def intro!: exI [of _ x_dim] exI [of _ vlon])
    then show ?thesis by (metis weak_map_of_SomeI option.distinct(1))
  qed
  have sy: "map_of (all_dim_sizes vs2) y_dim \<noteq> None"
  proof -
    have "(y_dim, vlat) \<in> set vs2" by (intro map_of_SomeD) (simp add: m2)
    then have "(y_dim, ny) \<in> set (all_dim_sizes vs2)"
      by (auto simp add: all_dim_sizes_mem vlat_def intro!: exI [of _ y_dim] exI [of _ vlat])
    then show ?thesis by (metis weak_map_of_SomeI option.distinct(1))
  qed
  have cx: "x_dim \<in> coord_names f_out" and cy: "y_dim \<in> coord_names f_out"
    using kx ky sx sy by (auto simp add: f_out_def)
  have so: "ds_sizes f_out = map_of (all_dim_sizes vs2)"
    by (simp add: ds_sizes_def f_out_def)
  have kl: "''lon'' \<in> set (map fst vs2)" and kt: "''lat'' \<in> set (map fst vs2)"
    by (simp_all add: vs2_def update_keys)
  have rl: "''lon'' \<in> coord_names f_out \<longleftrightarrow>
              ''lon'' \<in> coord_names f_in \<or> ds_sizes f_out ''lon'' \<noteq> None"
    unfolding so using kl yl by (auto simp add: f_out_def dv)
  have rt: "''lat'' \<in> coord_names f_out \<longleftrightarrow>
              ''lat'' \<in> coord_names f_in \<or> ds_sizes f_out ''lat'' \<noteq> None"
    unfolding so using kt xl by (auto simp add: f_out_def dv)
  show ?thesis
    using res vlonv vlatv ixo iyo cx cy rl rt
    by (intro exI [of _ f_out]) (simp add: vlon_def vlat_def row_def col_def)
qed

theorem create_1d_coord_axes_witness:
  "[''surfdata.nc'' \<mapsto> NetCDF surfdata_file] ''surfdata.nc'' = Some (NetCDF surfdata_file)
   \<and> dataset_ok surfdata_file
   \<and> map_of (variables surfdata_file) ''LONGXY''
        = Some \<lparr>dims = [''lsmlat'', ''lsmlon''], shape = [2, 3],
                 vals = [Num 10, Num 20, Num 30, Num 10, Num 20, Num 30]\<rparr>
   \<and> map_of (variables surfdata_file) ''LATIXY''
        = Some \<lparr>dims = [''lsmlat'', ''lsmlon''], shape = [2, 3],
                 vals = [Num 1, Num 1, Num 1, Num 2, Num 2, Num 2]\<rparr>
   \<and> index_of (variables surfdata_file) ''lsmlon'' = None
   \<and> index_of (variables surfdata_file) ''lsmlat'' = None
   \<and> (\<exists>f_out.
         create_1d_coord [''surfdata.nc'' \<mapsto> NetCDF surfdata_file] ''surfdata.nc''
             ''LONGXY'' ''LATIXY'' ''lsmlon'' ''lsmlat''
           = (Inr f_out, [(DEBUG, ''Open file: surfdata.nc'')])
         \<and> map_of (variables f_out) ''lon''
             = Some \<lparr>dims = [''lsmlon''], shape = [3], vals = [Num 10, Num 20, Num 30]\<rparr>
         \<and> map_of (variables f_out) ''lat''
             = Some \<lparr>dims = [''lsmlat''], shape = [2], vals = [Num 1, Num 2]\<rparr>
         \<and> index_of (variables f_out) ''lsmlon'' = Some [Num 10, Num 20, Num 30]
         \<and> index_of (variables f_out) ''lsmlat'' = Some [Num 1, Num 2]
         \<and> ''lsmlon'' \<in> coord_names f_out \<and> ''lsmlat'' \<in> coord_names f_out
         \<and> ''lon'' \<notin> coord_names f_out \<and> ''lat'' \<notin> coord_names f_out)"
proof -
  let ?X = "create_1d_coord [''surfdata.nc'' \<mapsto> NetCDF surfdata_file] ''surfdata.nc''
              ''LONGXY'' ''LATIXY'' ''lsmlon'' ''lsmlat''"
  let ?lon = "\<lparr>dims = [''lsmlat'', ''lsmlon''], shape = [2, 3],
                vals = [Num 10, Num 20, Num 30, Num 10, Num 20, Num 30]\<rparr>"
  let ?lat = "\<lparr>dims = [''lsmlat'', ''lsmlon''], shape = [2, 3],
                vals = [Num 1, Num 1, Num 1, Num 2, Num 2, Num 2]\<rparr>"
  have o: "[''surfdata.nc'' \<mapsto> NetCDF surfdata_file] ''surfdata.nc'' = Some (NetCDF surfdata_file)"
    by simp
  have v1: "map_of (variables surfdata_file) ''LONGXY'' = Some ?lon"
    by (simp add: surfdata_file_def)
  have v2: "map_of (variables surfdata_file) ''LATIXY'' = Some ?lat"
    by (simp add: surfdata_file_def)
  have i1: "index_of (variables surfdata_file) ''lsmlon'' = None"
    by (simp add: index_of_def surfdata_file_def)
  have i2: "index_of (variables surfdata_file) ''lsmlat'' = None"
    by (simp add: index_of_def surfdata_file_def)
  have r: "map (cell_at ?lon 0) [0..<3] = [Num 10, Num 20, Num 30]" by code_simp
  have c: "map (\<lambda>i. cell_at ?lat i 0) [0..<2] = [Num 1, Num 2]" by code_simp
  from create_1d_coord_axes [of "[''surfdata.nc'' \<mapsto> NetCDF surfdata_file]" "''surfdata.nc''"
      surfdata_file "''LONGXY''" ?lon "''lsmlat''" "''lsmlon''" "''LATIXY''" ?lat 2 3,
      OF o surfdata_file_ok v1 _ v2]
  have "\<exists>f_out.
         create_1d_coord [''surfdata.nc'' \<mapsto> NetCDF surfdata_file] ''surfdata.nc''
             ''LONGXY'' ''LATIXY'' ''lsmlon'' ''lsmlat''
           = (Inr f_out, [(DEBUG, ''Open file: surfdata.nc'')])
         \<and> map_of (variables f_out) ''lon''
             = Some \<lparr>dims = [''lsmlon''], shape = [3], vals = [Num 10, Num 20, Num 30]\<rparr>
         \<and> map_of (variables f_out) ''lat''
             = Some \<lparr>dims = [''lsmlat''], shape = [2], vals = [Num 1, Num 2]\<rparr>
         \<and> index_of (variables f_out) ''lsmlon'' = Some [Num 10, Num 20, Num 30]
         \<and> index_of (variables f_out) ''lsmlat'' = Some [Num 1, Num 2]
         \<and> ''lsmlon'' \<in> coord_names f_out \<and> ''lsmlat'' \<in> coord_names f_out
         \<and> (''lon'' \<in> coord_names f_out \<longleftrightarrow>
               ''lon'' \<in> coord_names surfdata_file \<or> ds_sizes f_out ''lon'' \<noteq> None)
         \<and> (''lat'' \<in> coord_names f_out \<longleftrightarrow>
               ''lat'' \<in> coord_names surfdata_file \<or> ds_sizes f_out ''lat'' \<noteq> None)"
    by (simp add: i1 i2 r c)
  then obtain f_out where
    res: "?X = (Inr f_out, [(DEBUG, ''Open file: surfdata.nc'')])"
    and vl: "map_of (variables f_out) ''lon''
               = Some \<lparr>dims = [''lsmlon''], shape = [3], vals = [Num 10, Num 20, Num 30]\<rparr>"
    and vt: "map_of (variables f_out) ''lat''
               = Some \<lparr>dims = [''lsmlat''], shape = [2], vals = [Num 1, Num 2]\<rparr>"
    and jx: "index_of (variables f_out) ''lsmlon'' = Some [Num 10, Num 20, Num 30]"
    and jy: "index_of (variables f_out) ''lsmlat'' = Some [Num 1, Num 2]"
    and cx: "''lsmlon'' \<in> coord_names f_out" and cy: "''lsmlat'' \<in> coord_names f_out"
    and rl: "''lon'' \<in> coord_names f_out \<longleftrightarrow>
               ''lon'' \<in> coord_names surfdata_file \<or> ds_sizes f_out ''lon'' \<noteq> None"
    and rt: "''lat'' \<in> coord_names f_out \<longleftrightarrow>
               ''lat'' \<in> coord_names surfdata_file \<or> ds_sizes f_out ''lat'' \<noteq> None"
    by blast
  from res have fo: "f_out = projr (fst ?X)" by simp
  have s1: "ds_sizes (projr (fst ?X)) ''lon'' = None" by code_simp
  have s2: "ds_sizes (projr (fst ?X)) ''lat'' = None" by code_simp
  have e: "coord_names surfdata_file = {}" by (simp add: surfdata_file_def)
  from rl rt fo s1 s2 e have nl: "''lon'' \<notin> coord_names f_out" "''lat'' \<notin> coord_names f_out"
    by auto
  from res vl vt jx jy cx cy nl
  have "\<exists>f_out. ?X = (Inr f_out, [(DEBUG, ''Open file: surfdata.nc'')])
         \<and> map_of (variables f_out) ''lon''
             = Some \<lparr>dims = [''lsmlon''], shape = [3], vals = [Num 10, Num 20, Num 30]\<rparr>
         \<and> map_of (variables f_out) ''lat''
             = Some \<lparr>dims = [''lsmlat''], shape = [2], vals = [Num 1, Num 2]\<rparr>
         \<and> index_of (variables f_out) ''lsmlon'' = Some [Num 10, Num 20, Num 30]
         \<and> index_of (variables f_out) ''lsmlat'' = Some [Num 1, Num 2]
         \<and> ''lsmlon'' \<in> coord_names f_out \<and> ''lsmlat'' \<in> coord_names f_out
         \<and> ''lon'' \<notin> coord_names f_out \<and> ''lat'' \<notin> coord_names f_out"
    by blast
  with o surfdata_file_ok v1 v2 i1 i2 show ?thesis by simp
qed

end
